theory Spec2Isabelle
  imports Main "HOL-Library.Word"
begin

unbundle bit_operations_syntax

section \<open>ARMKinetisDebug: the Kinetis extensions of the SWD debug interface\<close>

text \<open>
  The embedding follows \<^verbatim>\<open>testjig/production/arm_kinetis_debug.cpp\<close>. The class
  \<^verbatim>\<open>ARMKinetisDebug\<close> derives from \<^verbatim>\<open>ARMDebug\<close>, whose implementation and
  whose headers (\<^verbatim>\<open>arm_kinetis_debug.h\<close>, \<^verbatim>\<open>arm_kinetis_reg.h\<close>) are not part of
  the sources at hand. What the five member functions use from there is taken as a
  parameter: the register constants as a record, the target behind the wire as a
  record of functions over a device state.
\<close>

subsection \<open>Data\<close>

type_synonym word32 = "32 word"

text \<open>
  The enumeration \<^verbatim>\<open>LogLevel\<close> is declared in the base class header. The source
  names \<^verbatim>\<open>LOG_NONE\<close>, \<^verbatim>\<open>LOG_ERROR\<close> and \<^verbatim>\<open>LOG_NORMAL\<close>; every further
  enumerator is \<open>LOG_OTHER n\<close>.
\<close>

datatype LogLevel = LOG_NONE | LOG_ERROR | LOG_NORMAL | LOG_OTHER nat

text \<open>
  The access port registers the source addresses, by name. Their numeric addresses
  are macros of the missing headers; the names stand for pairwise different addresses.
\<close>

datatype APReg = REG_MDM_IDR | REG_MDM_STATUS | REG_MDM_CONTROL | MEM_CSW | MEM_TAR | MEM_DRW

text \<open>
  The bit masks and memory addresses that \<^verbatim>\<open>arm_kinetis_reg.h\<close> and the base class
  header define, and the default of the \<^verbatim>\<open>retries\<close> argument of \<^verbatim>\<open>apReadPoll\<close>.
\<close>

record KinetisReg =
  REG_MDM_STATUS_FLASH_ERASE_ACK :: word32
  REG_MDM_STATUS_FLASH_READY :: word32
  REG_MDM_STATUS_SYS_SECURITY :: word32
  REG_MDM_STATUS_SYS_NRESET :: word32
  REG_MDM_STATUS_MASS_ERASE_ENABLE :: word32
  REG_MDM_CONTROL_MASS_ERASE :: word32
  REG_MDM_CONTROL_SYS_RESET_REQ :: word32
  REG_MDM_CONTROL_CORE_HOLD_RESET :: word32
  CSW_DBGSWENABLE :: word32
  CSW_MASTER_DEBUG :: word32
  CSW_HPROT :: word32
  CSW_32BIT :: word32
  CSW_ADDRINC_OFF :: word32
  REG_SCB_DHCSR :: word32
  REG_SIM_SCGC5 :: word32
  REG_SIM_SCGC6 :: word32
  REG_SIM_SCGC6_FTM0 :: word32
  REG_SIM_SCGC6_FTM1 :: word32
  REG_SIM_SCGC6_FTFL :: word32
  DEFAULT_RETRIES :: nat

text \<open>
  The target as the transport layer shows it: one round trip per call, the device
  state threaded through. A read that fails delivers no value (\<open>None\<close>), a write
  or store answers whether it succeeded. What \<^verbatim>\<open>initMemPort\<close> answers the source
  never looks at, so only its effect on the device is kept.
\<close>

record 'd transport =
  hw_apRead :: "APReg \<Rightarrow> 'd \<Rightarrow> word32 option \<times> 'd"
  hw_apWrite :: "APReg \<Rightarrow> word32 \<Rightarrow> 'd \<Rightarrow> bool \<times> 'd"
  hw_memStore :: "word32 \<Rightarrow> word32 \<Rightarrow> 'd \<Rightarrow> bool \<times> 'd"
  hw_memLoad :: "word32 \<Rightarrow> 'd \<Rightarrow> word32 option \<times> 'd"
  hw_initMemPort :: "'d \<Rightarrow> 'd"

text \<open>
  What a run does, in the order it does it. A read records what it delivered, a write
  whether it succeeded; \<open>EvApReadPoll\<close> is recorded when a poll returns, with its
  arguments and its result. A value logged through a \<^verbatim>\<open>%08x\<close> is \<open>None\<close> when the
  variable printed was never assigned.
\<close>

datatype event =
    EvApRead APReg "word32 option"
  | EvApWrite APReg word32 bool
  | EvApReadPoll APReg word32 word32 nat bool
  | EvMemStore word32 word32 bool
  | EvMemLoad word32 "word32 option"
  | EvInitMemPort
  | EvSetLogLevel LogLevel
  | EvLog LogLevel string "word32 option list"

record 'd state =
  dev :: 'd
  logLevel :: LogLevel
  trace :: "event list"

subsection \<open>The primitives of the base class\<close>

definition emit :: "event \<Rightarrow> 'd state \<Rightarrow> 'd state" where
  "emit e s = s\<lparr>trace := trace s @ [e]\<rparr>"

definition apRead :: "'d transport \<Rightarrow> APReg \<Rightarrow> 'd state \<Rightarrow> word32 option \<times> 'd state" where
  "apRead T reg s =
     (let (r, d) = hw_apRead T reg (dev s)
      in (r, emit (EvApRead reg r) (s\<lparr>dev := d\<rparr>)))"

definition apWrite :: "'d transport \<Rightarrow> APReg \<Rightarrow> word32 \<Rightarrow> 'd state \<Rightarrow> bool \<times> 'd state" where
  "apWrite T reg v s =
     (let (ok, d) = hw_apWrite T reg v (dev s)
      in (ok, emit (EvApWrite reg v ok) (s\<lparr>dev := d\<rparr>)))"

definition memStore :: "'d transport \<Rightarrow> word32 \<Rightarrow> word32 \<Rightarrow> 'd state \<Rightarrow> bool \<times> 'd state" where
  "memStore T addr v s =
     (let (ok, d) = hw_memStore T addr v (dev s)
      in (ok, emit (EvMemStore addr v ok) (s\<lparr>dev := d\<rparr>)))"

definition memLoad :: "'d transport \<Rightarrow> word32 \<Rightarrow> 'd state \<Rightarrow> word32 option \<times> 'd state" where
  "memLoad T addr s =
     (let (r, d) = hw_memLoad T addr (dev s)
      in (r, emit (EvMemLoad addr r) (s\<lparr>dev := d\<rparr>)))"

definition initMemPort :: "'d transport \<Rightarrow> 'd state \<Rightarrow> 'd state" where
  "initMemPort T s = emit EvInitMemPort (s\<lparr>dev := hw_initMemPort T (dev s)\<rparr>)"

definition log :: "LogLevel \<Rightarrow> string \<Rightarrow> word32 option list \<Rightarrow> 'd state \<Rightarrow> 'd state" where
  "log lvl msg args s = emit (EvLog lvl msg args) s"

text \<open>
  \<^verbatim>\<open>setLogLevel(newLevel, prevLevel)\<close> hands the level in force back through its second
  argument; \<^verbatim>\<open>setLogLevel(newLevel)\<close> only sets.
\<close>

definition setLogLevel_save :: "LogLevel \<Rightarrow> 'd state \<Rightarrow> LogLevel \<times> 'd state" where
  "setLogLevel_save newLevel s =
     (logLevel s, emit (EvSetLogLevel newLevel) (s\<lparr>logLevel := newLevel\<rparr>))"

definition setLogLevel :: "LogLevel \<Rightarrow> 'd state \<Rightarrow> 'd state" where
  "setLogLevel newLevel s = emit (EvSetLogLevel newLevel) (s\<lparr>logLevel := newLevel\<rparr>)"

text \<open>
  Modelled from the spec: \<^verbatim>\<open>apReadPoll\<close> is implemented in the base class, outside
  the sources at hand. The spec: "repeatedly read, mask, compare to an expected masked
  value (where -1/all-ones as expected means mask bits must all be set), succeed on
  first match, fail after retries exhausted; returns the last-read value regardless of
  outcome", and a read that fails "propagates as immediate phase failure". The first
  read is the try, each further one uses up one of the \<open>retries\<close>; \<open>data\<close> is the
  caller's variable, which keeps its contents when a read delivers nothing.
\<close>

fun apReadPoll_loop ::
  "'d transport \<Rightarrow> APReg \<Rightarrow> word32 option \<Rightarrow> word32 \<Rightarrow> word32 \<Rightarrow> nat \<Rightarrow> 'd state
     \<Rightarrow> bool \<times> word32 option \<times> 'd state" where
  "apReadPoll_loop T reg data msk expected 0 s =
     (case apRead T reg s of
        (None, s1) \<Rightarrow> (False, data, s1)
      | (Some v, s1) \<Rightarrow> (v AND msk = expected AND msk, Some v, s1))"
| "apReadPoll_loop T reg data msk expected (Suc retries) s =
     (case apRead T reg s of
        (None, s1) \<Rightarrow> (False, data, s1)
      | (Some v, s1) \<Rightarrow>
          if v AND msk = expected AND msk then (True, Some v, s1)
          else apReadPoll_loop T reg (Some v) msk expected retries s1)"

definition apReadPoll ::
  "'d transport \<Rightarrow> APReg \<Rightarrow> word32 option \<Rightarrow> word32 \<Rightarrow> word32 \<Rightarrow> nat \<Rightarrow> 'd state
     \<Rightarrow> bool \<times> word32 option \<times> 'd state" where
  "apReadPoll T reg data msk expected retries s =
     (let (ok, data', s1) = apReadPoll_loop T reg data msk expected retries s
      in (ok, data', emit (EvApReadPoll reg msk expected retries ok) s1))"

text \<open>
  Modelled from the spec: \<^verbatim>\<open>memStoreAndVerify\<close> is implemented in the base class,
  outside the sources at hand. The spec: a "memory-mapped write, optionally with
  write-then-read verification"; "each round-trip must write the pattern and read it
  back identically; any mismatch is a memory-access-integrity failure".
\<close>

definition memStoreAndVerify ::
  "'d transport \<Rightarrow> word32 \<Rightarrow> word32 \<Rightarrow> 'd state \<Rightarrow> bool \<times> 'd state" where
  "memStoreAndVerify T addr v s =
     (let (ok, s1) = memStore T addr v s
      in if \<not> ok then (False, s1)
         else (case memLoad T addr s1 of
                 (None, s2) \<Rightarrow> (False, s2)
               | (Some actual, s2) \<Rightarrow> (actual = v, s2)))"

subsection \<open>detect\<close>

definition detect :: "'d transport \<Rightarrow> 'd state \<Rightarrow> bool \<times> 'd state" where
  "detect T s =
     (case apRead T REG_MDM_IDR s of
        (None, s1) \<Rightarrow> (False, s1)
      | (Some idr, s1) \<Rightarrow>
          if idr \<noteq> 0x001C0000
          then (False, log LOG_ERROR
                  ''ARMKinetisDebug: Didn't find a supported MDM-AP peripheral'' [] s1)
          else (True, s1))"

subsection \<open>resetHalt\<close>

text \<open>
  The \<^verbatim>\<open>while (haltRetries)\<close> loop. The first argument is \<^verbatim>\<open>haltRetries\<close> on entry
  to the loop test, \<open>dhcsr\<close> is the local variable of that name: \<open>None\<close> as long
  as nothing was read into it. Both \<^verbatim>\<open>continue\<close> branches go back to the loop test
  with the counter already decremented; \<^verbatim>\<open>break\<close> leaves with the counter as it is
  then. The result is the counter and the variable after the loop.
\<close>

fun haltLoop ::
  "'d transport \<Rightarrow> nat \<Rightarrow> word32 option \<Rightarrow> 'd state \<Rightarrow> nat \<times> word32 option \<times> 'd state" where
  "haltLoop T 0 dhcsr s = (0, dhcsr, s)"
| "haltLoop T (Suc haltRetries) dhcsr s =
     (let (ok, s1) = apWrite T MEM_DRW 0xA05F0003 s
      in if \<not> ok then haltLoop T haltRetries dhcsr s1
         else (case apRead T MEM_DRW s1 of
                 (None, s2) \<Rightarrow> haltLoop T haltRetries dhcsr s2
               | (Some v, s2) \<Rightarrow>
                   if v AND push_bit 17 1 \<noteq> 0 then (haltRetries, Some v, s2)
                   else haltLoop T haltRetries (Some v) s2))"

definition resetRetries :: nat where
  "resetRetries = 2000"

definition resetHalt :: "'d transport \<Rightarrow> KinetisReg \<Rightarrow> 'd state \<Rightarrow> bool \<times> 'd state" where
  "resetHalt T c s =
     (let (ok, s) = apWrite T REG_MDM_CONTROL (REG_MDM_CONTROL_CORE_HOLD_RESET c) s
      in if \<not> ok then (False, s) else
      let (ok, status, s) =
            apReadPoll T REG_MDM_STATUS None (REG_MDM_STATUS_SYS_NRESET c) (- 1) resetRetries s
      in if \<not> ok then (False, s) else
      let (ok, s) = apWrite T REG_MDM_CONTROL (REG_MDM_CONTROL_SYS_RESET_REQ c) s
      in if \<not> ok then (False, s) else
      let (ok, status, s) =
            apReadPoll T REG_MDM_STATUS status (REG_MDM_STATUS_SYS_NRESET c) 0
              (DEFAULT_RETRIES c) s
      in if \<not> ok then (False, s) else
      let (ok, s) = apWrite T REG_MDM_CONTROL 0 s
      in if \<not> ok then (False, s) else
      let (ok, status, s) =
            apReadPoll T REG_MDM_STATUS status
              (REG_MDM_STATUS_SYS_NRESET c OR REG_MDM_STATUS_FLASH_READY c
                 OR REG_MDM_STATUS_SYS_SECURITY c)
              (REG_MDM_STATUS_SYS_NRESET c OR REG_MDM_STATUS_FLASH_READY c)
              resetRetries s
      in if \<not> ok then (False, s) else
      let (ok, s) =
            apWrite T MEM_CSW
              (CSW_DBGSWENABLE c OR CSW_MASTER_DEBUG c OR CSW_HPROT c OR CSW_32BIT c
                 OR CSW_ADDRINC_OFF c) s
      in if \<not> ok then (False, s) else
      let (ok, s) = apWrite T MEM_TAR (REG_SCB_DHCSR c) s
      in if \<not> ok then (False, s) else
      let (savedLogLevel, s) = setLogLevel_save LOG_NONE s;
          (haltRetries, dhcsr, s) = haltLoop T 200 None s;
          s = initMemPort T s;
          s = setLogLevel savedLogLevel s
      in if haltRetries \<noteq> 0
         then (True, log LOG_NORMAL ''CPU reset & halt successful. Now in debug mode.'' [] s)
         else (False, log LOG_ERROR
                 ''ARMKinetisDebug: Failed to put CPU in debug halt state. (DHCSR: %08x)''
                 [dhcsr] s))"

subsection \<open>peripheralInit\<close>

definition peripheralInit :: "'d transport \<Rightarrow> KinetisReg \<Rightarrow> 'd state \<Rightarrow> bool \<times> 'd state" where
  "peripheralInit T c s =
     (let (ok, s) = memStore T (REG_SIM_SCGC5 c) 0x00043F82 s
      in if \<not> ok then (False, s) else
      let (ok, s) =
            memStore T (REG_SIM_SCGC6 c)
              (REG_SIM_SCGC6_FTM0 c OR REG_SIM_SCGC6_FTM1 c OR REG_SIM_SCGC6_FTFL c) s
      in if \<not> ok then (False, s) else
      let (ok, s) = memStoreAndVerify T 0x20000000 0x31415927 s
      in if \<not> ok then (False, s) else
      let (ok, s) = memStoreAndVerify T 0x20000000 0x76543210 s
      in if \<not> ok then (False, s) else
      (True, s))"

subsection \<open>startup\<close>

definition startup :: "'d transport \<Rightarrow> KinetisReg \<Rightarrow> 'd state \<Rightarrow> bool \<times> 'd state" where
  "startup T c s =
     (let (ok, s) = detect T s
      in if \<not> ok then (False, s) else
      let (ok, s) = resetHalt T c s
      in if \<not> ok then (False, s) else
      peripheralInit T c s)"

subsection \<open>flashMassErase\<close>

definition flashMassErase :: "'d transport \<Rightarrow> KinetisReg \<Rightarrow> 'd state \<Rightarrow> bool \<times> 'd state" where
  "flashMassErase T c s =
     (case apRead T REG_MDM_STATUS s of
        (None, s) \<Rightarrow> (False, s)
      | (Some status, s) \<Rightarrow>
      if status AND REG_MDM_STATUS_FLASH_READY c = 0
      then (False, log LOG_ERROR ''FLASH: Flash controller not ready before mass erase'' [] s)
      else
      if status AND REG_MDM_STATUS_FLASH_ERASE_ACK c \<noteq> 0
      then (False, log LOG_ERROR ''FLASH: Mass erase already in progress'' [] s)
      else
      if status AND REG_MDM_STATUS_MASS_ERASE_ENABLE c = 0
      then (False, log LOG_ERROR ''FLASH: Mass erase is disabled!'' [] s)
      else
      let s = log LOG_NORMAL ''FLASH: Beginning mass erase operation'' [] s;
          (ok, s) =
            apWrite T REG_MDM_CONTROL
              (REG_MDM_CONTROL_CORE_HOLD_RESET c OR REG_MDM_CONTROL_MASS_ERASE c) s
      in if \<not> ok then (False, s) else
      let (ok, status, s) =
            apReadPoll T REG_MDM_STATUS (Some status) (REG_MDM_STATUS_FLASH_ERASE_ACK c) (- 1)
              (DEFAULT_RETRIES c) s
      in if \<not> ok
         then (False, log LOG_ERROR ''FLASH: Timed out waiting for mass erase to begin'' [] s)
         else
      let (ok, control, s) =
            apReadPoll T REG_MDM_CONTROL None (REG_MDM_CONTROL_MASS_ERASE c) 0 10000 s
      in if \<not> ok
         then (False, log LOG_ERROR ''FLASH: Timed out waiting for mass erase to complete'' [] s)
         else
      (case apRead T REG_MDM_STATUS s of
         (None, s) \<Rightarrow> (False, s)
       | (Some status, s) \<Rightarrow>
           if status AND REG_MDM_STATUS_FLASH_READY c = 0
           then (False, log LOG_ERROR ''FLASH: Flash controller not ready after mass erase'' [] s)
           else (True, log LOG_NORMAL ''FLASH: Mass erase complete'' [] s)))"

subsection \<open>A scripted target\<close>

text \<open>
  A target that answers from a script: the reads deliver the listed values in turn
  (\<open>None\<close> for a read that fails), the writes and stores succeed as listed, and
  past the end of its script every access fails. \<open>start\<close> is the state a run begins in.
\<close>

definition replay :: "(word32 option list \<times> bool list) transport" where
  "replay =
     \<lparr>hw_apRead = (\<lambda>reg (rs, ws). case rs of [] \<Rightarrow> (None, ([], ws)) | r # rs' \<Rightarrow> (r, (rs', ws))),
      hw_apWrite = (\<lambda>reg v (rs, ws). case ws of [] \<Rightarrow> (False, (rs, [])) | w # ws' \<Rightarrow> (w, (rs, ws'))),
      hw_memStore = (\<lambda>addr v (rs, ws). case ws of [] \<Rightarrow> (False, (rs, [])) | w # ws' \<Rightarrow> (w, (rs, ws'))),
      hw_memLoad = (\<lambda>addr (rs, ws). case rs of [] \<Rightarrow> (None, ([], ws)) | r # rs' \<Rightarrow> (r, (rs', ws))),
      hw_initMemPort = (\<lambda>d. d)\<rparr>"

definition start :: "'d \<Rightarrow> LogLevel \<Rightarrow> 'd state" where
  "start d lvl = \<lparr>dev = d, logLevel = lvl, trace = []\<rparr>"

subsection \<open>Reading a trace\<close>

text \<open>
  \<open>isApWrite\<close> holds of the access port writes, \<open>isReadOf reg\<close> of the reads
  and polls of the register \<open>reg\<close>.
\<close>

fun isApWrite :: "event \<Rightarrow> bool" where
  "isApWrite (EvApWrite reg v ok) = True"
| "isApWrite _ = False"

fun isReadOf :: "APReg \<Rightarrow> event \<Rightarrow> bool" where
  "isReadOf reg (EvApRead r x) = (r = reg)"
| "isReadOf reg (EvApReadPoll r msk expected retries ok) = (r = reg)"
| "isReadOf reg _ = False"

text \<open>
  The reads of one poll of \<open>reg\<close>, as the loop of \<open>apReadPoll\<close> leaves them in the
  trace: every read but the last delivered a value that did not match; the last one
  matched if the poll succeeded, and failed or did not match if it did not.
\<close>

definition pollReads :: "APReg \<Rightarrow> word32 \<Rightarrow> word32 \<Rightarrow> bool \<Rightarrow> event list \<Rightarrow> bool" where
  "pollReads reg msk expected ok rds \<longleftrightarrow>
     rds \<noteq> []
     \<and> (\<forall>e\<in>set (butlast rds). \<exists>v. e = EvApRead reg (Some v) \<and> v AND msk \<noteq> expected AND msk)
     \<and> (if ok then \<exists>v. last rds = EvApRead reg (Some v) \<and> v AND msk = expected AND msk
         else last rds = EvApRead reg None
            \<or> (\<exists>v. last rds = EvApRead reg (Some v) \<and> v AND msk \<noteq> expected AND msk))"

text \<open>
  The accesses of an event to an access port register, if it has one, and the accesses
  to the data register \<^verbatim>\<open>MEM_DRW\<close>, which only the halt race makes.
\<close>

fun evReg :: "event \<Rightarrow> APReg option" where
  "evReg (EvApRead reg r) = Some reg"
| "evReg (EvApWrite reg v ok) = Some reg"
| "evReg (EvApReadPoll reg msk expected retries ok) = Some reg"
| "evReg _ = None"

definition isDRW :: "event \<Rightarrow> bool" where
  "isDRW e \<longleftrightarrow> evReg e = Some MEM_DRW"

text \<open>
  A read of \<^verbatim>\<open>MEM_DRW\<close> that shows the halted bit (bit 17 of DHCSR), and the contents
  of the variable \<^verbatim>\<open>dhcsr\<close> after a trace, given its contents before: the value
  of the last read of \<^verbatim>\<open>MEM_DRW\<close> that delivered one.
\<close>

fun isHaltedRead :: "event \<Rightarrow> bool" where
  "isHaltedRead (EvApRead reg (Some v)) = (reg = MEM_DRW \<and> v AND push_bit 17 1 \<noteq> 0)"
| "isHaltedRead _ = False"

fun lastDhcsr :: "word32 option \<Rightarrow> event list \<Rightarrow> word32 option" where
  "lastDhcsr d [] = d"
| "lastDhcsr d (e # es) =
     lastDhcsr (case e of EvApRead reg (Some v) \<Rightarrow> if reg = MEM_DRW then Some v else d | _ \<Rightarrow> d) es"

text \<open>
  The log level in force after a trace, and the property that every access to
  \<^verbatim>\<open>MEM_DRW\<close> in a trace happens at the level \<^verbatim>\<open>LOG_NONE\<close>.
\<close>

fun levelAfter :: "LogLevel \<Rightarrow> event list \<Rightarrow> LogLevel" where
  "levelAfter lvl [] = lvl"
| "levelAfter lvl (e # es) = levelAfter (case e of EvSetLogLevel n \<Rightarrow> n | _ \<Rightarrow> lvl) es"

fun suppressedAtRace :: "LogLevel \<Rightarrow> event list \<Rightarrow> bool" where
  "suppressedAtRace lvl [] = True"
| "suppressedAtRace lvl (e # es) =
     ((isDRW e \<longrightarrow> lvl = LOG_NONE) \<and> suppressedAtRace (levelAfter lvl [e]) es)"

text \<open>
  The accesses to the memory access window: the set-up of \<^verbatim>\<open>MEM_CSW\<close> and
  \<^verbatim>\<open>MEM_TAR\<close> and the halt attempts through \<^verbatim>\<open>MEM_DRW\<close>.
\<close>

definition isMemPort :: "event \<Rightarrow> bool" where
  "isMemPort e \<longleftrightarrow> evReg e \<in> {Some MEM_CSW, Some MEM_TAR, Some MEM_DRW}"

text \<open>
  An access port read or write that failed; the events that are accesses of the
  target at all (the return of a poll, a change of the log level and a message are
  not); a failed access outside the halt race, that is, to a register other than
  \<^verbatim>\<open>MEM_DRW\<close>; and the property of a trace that no access follows such a failure.
\<close>

fun isFailedAccess :: "event \<Rightarrow> bool" where
  "isFailedAccess (EvApRead reg None) = True"
| "isFailedAccess (EvApWrite reg v False) = True"
| "isFailedAccess _ = False"

fun isAccess :: "event \<Rightarrow> bool" where
  "isAccess (EvApReadPoll reg msk expected retries ok) = False"
| "isAccess (EvSetLogLevel lvl) = False"
| "isAccess (EvLog lvl msg args) = False"
| "isAccess _ = True"

definition failedOutsideRace :: "event \<Rightarrow> bool" where
  "failedOutsideRace e \<longleftrightarrow> isFailedAccess e \<and> \<not> isDRW e"

fun stopsAtFailure :: "event list \<Rightarrow> bool" where
  "stopsAtFailure [] = True"
| "stopsAtFailure (e # es) =
     ((failedOutsideRace e \<longrightarrow> \<not> list_ex isAccess es) \<and> stopsAtFailure es)"

subsection \<open>The phases of resetHalt, as the spec lists them\<close>

text \<open>
  The spec describes \<^verbatim>\<open>resetHalt\<close> as five phases. Phases 1 to 4 are eight register
  operations, each a write or a poll, run in order until one fails: \<open>setupOps\<close>
  lists them (phase 1: operations 0 and 1; phase 2: operations 2, 3 and 4; phase 3:
  operation 5; phase 4: operations 6 and 7), \<open>runOps\<close> runs such a list.
  Phase 5, the halt race with its cleanup, is \<open>haltPhase\<close>. That \<^verbatim>\<open>resetHalt\<close>
  as translated from the source is the one followed by the other is
  \<open>resetHalt_refines\<close> below. \<open>opDone ok\<close> is the event an operation leaves in
  the trace when it returns \<open>ok\<close>; \<open>isOpEvent\<close> holds of these events.
\<close>

datatype op = OpWrite APReg word32 | OpPoll APReg word32 word32 nat

fun runOps ::
  "'d transport \<Rightarrow> op list \<Rightarrow> word32 option \<Rightarrow> 'd state \<Rightarrow> bool \<times> word32 option \<times> 'd state" where
  "runOps T [] status s = (True, status, s)"
| "runOps T (OpWrite reg v # ops) status s =
     (let (ok, s) = apWrite T reg v s
      in if \<not> ok then (False, status, s) else runOps T ops status s)"
| "runOps T (OpPoll reg msk expected retries # ops) status s =
     (let (ok, status, s) = apReadPoll T reg status msk expected retries s
      in if \<not> ok then (False, status, s) else runOps T ops status s)"

definition setupOps :: "KinetisReg \<Rightarrow> op list" where
  "setupOps c =
     [OpWrite REG_MDM_CONTROL (REG_MDM_CONTROL_CORE_HOLD_RESET c),
      OpPoll REG_MDM_STATUS (REG_MDM_STATUS_SYS_NRESET c) (- 1) resetRetries,
      OpWrite REG_MDM_CONTROL (REG_MDM_CONTROL_SYS_RESET_REQ c),
      OpPoll REG_MDM_STATUS (REG_MDM_STATUS_SYS_NRESET c) 0 (DEFAULT_RETRIES c),
      OpWrite REG_MDM_CONTROL 0,
      OpPoll REG_MDM_STATUS
        (REG_MDM_STATUS_SYS_NRESET c OR REG_MDM_STATUS_FLASH_READY c
           OR REG_MDM_STATUS_SYS_SECURITY c)
        (REG_MDM_STATUS_SYS_NRESET c OR REG_MDM_STATUS_FLASH_READY c) resetRetries,
      OpWrite MEM_CSW
        (CSW_DBGSWENABLE c OR CSW_MASTER_DEBUG c OR CSW_HPROT c OR CSW_32BIT c
           OR CSW_ADDRINC_OFF c),
      OpWrite MEM_TAR (REG_SCB_DHCSR c)]"

definition haltPhase :: "'d transport \<Rightarrow> 'd state \<Rightarrow> bool \<times> 'd state" where
  "haltPhase T s =
     (let (savedLogLevel, s) = setLogLevel_save LOG_NONE s;
          (haltRetries, dhcsr, s) = haltLoop T 200 None s;
          s = initMemPort T s;
          s = setLogLevel savedLogLevel s
      in if haltRetries \<noteq> 0
         then (True, log LOG_NORMAL ''CPU reset & halt successful. Now in debug mode.'' [] s)
         else (False, log LOG_ERROR
                 ''ARMKinetisDebug: Failed to put CPU in debug halt state. (DHCSR: %08x)''
                 [dhcsr] s))"

fun opDone :: "bool \<Rightarrow> op \<Rightarrow> event" where
  "opDone ok (OpWrite reg v) = EvApWrite reg v ok"
| "opDone ok (OpPoll reg msk expected retries) = EvApReadPoll reg msk expected retries ok"

fun isOpEvent :: "event \<Rightarrow> bool" where
  "isOpEvent (EvApWrite reg v ok) = True"
| "isOpEvent (EvApReadPoll reg msk expected retries ok) = True"
| "isOpEvent _ = False"

fun opReg :: "op \<Rightarrow> APReg" where
  "opReg (OpWrite reg v) = reg"
| "opReg (OpPoll reg msk expected retries) = reg"

subsection \<open>Sample constants and scripts\<close>

text \<open>
  One assignment of the register constants, for the runs the theorems are applied to:
  single bits of the status and control registers, none of them shared.
\<close>

definition sampleReg :: KinetisReg where
  "sampleReg =
     \<lparr>REG_MDM_STATUS_FLASH_ERASE_ACK = 0x01,
      REG_MDM_STATUS_FLASH_READY = 0x02,
      REG_MDM_STATUS_SYS_SECURITY = 0x04,
      REG_MDM_STATUS_SYS_NRESET = 0x08,
      REG_MDM_STATUS_MASS_ERASE_ENABLE = 0x20,
      REG_MDM_CONTROL_MASS_ERASE = 0x01,
      REG_MDM_CONTROL_SYS_RESET_REQ = 0x08,
      REG_MDM_CONTROL_CORE_HOLD_RESET = 0x10,
      CSW_DBGSWENABLE = 0x80000000,
      CSW_MASTER_DEBUG = 0x20000000,
      CSW_HPROT = 0x02000000,
      CSW_32BIT = 0x02,
      CSW_ADDRINC_OFF = 0x00,
      REG_SCB_DHCSR = 0xE000EDF0,
      REG_SIM_SCGC5 = 0x40048038,
      REG_SIM_SCGC6 = 0x4004803C,
      REG_SIM_SCGC6_FTM0 = 0x01000000,
      REG_SIM_SCGC6_FTM1 = 0x02000000,
      REG_SIM_SCGC6_FTFL = 0x01,
      DEFAULT_RETRIES = 50\<rparr>"

text \<open>
  A mass erase that goes through; one whose acknowledge bit never shows within a
  retry budget of two; one that begins, but whose mass-erase bit is still set at each
  of the 10001 reads of the completion poll; and one that completes and leaves the
  flash controller not ready.
\<close>

definition eraseOk :: "(word32 option list \<times> bool list) state" where
  "eraseOk = start ([Some 0x22, Some 0x23, Some 0, Some 0x22], [True]) LOG_NORMAL"

definition eraseOkTrace :: "event list" where
  "eraseOkTrace =
     [EvApRead REG_MDM_STATUS (Some 0x22),
      EvLog LOG_NORMAL ''FLASH: Beginning mass erase operation'' [],
      EvApWrite REG_MDM_CONTROL 0x11 True,
      EvApRead REG_MDM_STATUS (Some 0x23),
      EvApReadPoll REG_MDM_STATUS 0x01 (- 1) 50 True,
      EvApRead REG_MDM_CONTROL (Some 0),
      EvApReadPoll REG_MDM_CONTROL 0x01 0 10000 True,
      EvApRead REG_MDM_STATUS (Some 0x22),
      EvLog LOG_NORMAL ''FLASH: Mass erase complete'' []]"

definition eraseStuck :: "(word32 option list \<times> bool list) state" where
  "eraseStuck = start ([Some 0x22, Some 0x22, Some 0x22, Some 0x22], [True]) LOG_NORMAL"

definition eraseStuckTrace :: "event list" where
  "eraseStuckTrace =
     [EvApRead REG_MDM_STATUS (Some 0x22),
      EvLog LOG_NORMAL ''FLASH: Beginning mass erase operation'' [],
      EvApWrite REG_MDM_CONTROL 0x11 True,
      EvApRead REG_MDM_STATUS (Some 0x22),
      EvApRead REG_MDM_STATUS (Some 0x22),
      EvApRead REG_MDM_STATUS (Some 0x22),
      EvApReadPoll REG_MDM_STATUS 0x01 (- 1) 2 False,
      EvLog LOG_ERROR ''FLASH: Timed out waiting for mass erase to begin'' []]"

definition eraseHung :: "(word32 option list \<times> bool list) state" where
  "eraseHung =
     start ([Some 0x22, Some 0x23] @ replicate (Suc 10000) (Some 0x01), [True]) LOG_NORMAL"

definition eraseHungTrace :: "event list" where
  "eraseHungTrace =
     [EvApRead REG_MDM_STATUS (Some 0x22),
      EvLog LOG_NORMAL ''FLASH: Beginning mass erase operation'' [],
      EvApWrite REG_MDM_CONTROL 0x11 True,
      EvApRead REG_MDM_STATUS (Some 0x23),
      EvApReadPoll REG_MDM_STATUS 0x01 (- 1) 50 True]
     @ replicate (Suc 10000) (EvApRead REG_MDM_CONTROL (Some 0x01))
     @ [EvApReadPoll REG_MDM_CONTROL 0x01 0 10000 False,
        EvLog LOG_ERROR ''FLASH: Timed out waiting for mass erase to complete'' []]"

definition eraseNotReady :: "(word32 option list \<times> bool list) state" where
  "eraseNotReady = start ([Some 0x22, Some 0x23, Some 0, Some 0x20], [True]) LOG_NORMAL"

definition eraseNotReadyTrace :: "event list" where
  "eraseNotReadyTrace =
     [EvApRead REG_MDM_STATUS (Some 0x22),
      EvLog LOG_NORMAL ''FLASH: Beginning mass erase operation'' [],
      EvApWrite REG_MDM_CONTROL 0x11 True,
      EvApRead REG_MDM_STATUS (Some 0x23),
      EvApReadPoll REG_MDM_STATUS 0x01 (- 1) 50 True,
      EvApRead REG_MDM_CONTROL (Some 0),
      EvApReadPoll REG_MDM_CONTROL 0x01 0 10000 True,
      EvApRead REG_MDM_STATUS (Some 0x20),
      EvLog LOG_ERROR ''FLASH: Flash controller not ready after mass erase'' []]"

text \<open>
  A reset in which the halt race sees the halted bit at its \<open>k\<close>-th attempt, after
  \<open>k - 1\<close> attempts that read DHCSR without it, and the trace of that run.
\<close>

definition haltAt :: "nat \<Rightarrow> (word32 option list \<times> bool list) state" where
  "haltAt k =
     start ([Some 0x08, Some 0, Some 0x0A] @ replicate (k - 1) (Some 0x03) @ [Some 0x00030003],
            replicate (5 + k) True) LOG_NORMAL"

definition setupTrace :: "event list" where
  "setupTrace =
     [EvApWrite REG_MDM_CONTROL 0x10 True,
      EvApRead REG_MDM_STATUS (Some 0x08),
      EvApReadPoll REG_MDM_STATUS 0x08 (- 1) 2000 True,
      EvApWrite REG_MDM_CONTROL 0x08 True,
      EvApRead REG_MDM_STATUS (Some 0),
      EvApReadPoll REG_MDM_STATUS 0x08 0 50 True,
      EvApWrite REG_MDM_CONTROL 0 True,
      EvApRead REG_MDM_STATUS (Some 0x0A),
      EvApReadPoll REG_MDM_STATUS 0x0E 0x0A 2000 True,
      EvApWrite MEM_CSW 0xA2000002 True,
      EvApWrite MEM_TAR 0xE000EDF0 True]"

definition missed :: "event list" where
  "missed = [EvApWrite MEM_DRW 0xA05F0003 True, EvApRead MEM_DRW (Some 0x03)]"

definition raceTrace :: "nat \<Rightarrow> event list" where
  "raceTrace k =
     setupTrace @ EvSetLogLevel LOG_NONE # concat (replicate (k - 1) missed) @
     [EvApWrite MEM_DRW 0xA05F0003 True, EvApRead MEM_DRW (Some 0x00030003),
      EvInitMemPort, EvSetLogLevel LOG_NORMAL,
      if k < 200
      then EvLog LOG_NORMAL ''CPU reset & halt successful. Now in debug mode.'' []
      else EvLog LOG_ERROR
             ''ARMKinetisDebug: Failed to put CPU in debug halt state. (DHCSR: %08x)''
             [Some 0x00030003]]"

text \<open>
  A reset whose halt race first has its write fail, then its read, and then sees the
  core halted.
\<close>

definition retried :: "(word32 option list \<times> bool list) state" where
  "retried =
     start ([Some 0x08, Some 0, Some 0x0A, None, Some 0x00030003],
            [True, True, True, True, True, False, True, True]) LOG_NORMAL"

text \<open>
  A reset in which every write of the halt race fails, so that DHCSR is never read.
\<close>

definition neverRead :: "(word32 option list \<times> bool list) state" where
  "neverRead = start ([Some 0x08, Some 0, Some 0x0A], [True, True, True, True, True]) LOG_NORMAL"

definition neverReadTrace :: "event list" where
  "neverReadTrace =
     setupTrace @ EvSetLogLevel LOG_NONE # replicate 200 (EvApWrite MEM_DRW 0xA05F0003 False) @
     [EvInitMemPort, EvSetLogLevel LOG_NORMAL,
      EvLog LOG_ERROR
        ''ARMKinetisDebug: Failed to put CPU in debug halt state. (DHCSR: %08x)'' [None]]"

section \<open>Properties\<close>

subsection \<open>The primitives\<close>

lemma trace_emit [simp]: "trace (emit e s) = trace s @ [e]"
  and logLevel_emit [simp]: "logLevel (emit e s) = logLevel s"
  and dev_emit [simp]: "dev (emit e s) = dev s"
  by (simp_all add: emit_def)

lemma trace_log [simp]: "trace (log lvl msg args s) = trace s @ [EvLog lvl msg args]"
  and logLevel_log [simp]: "logLevel (log lvl msg args s) = logLevel s"
  by (simp_all add: log_def)

lemma apRead_run:
  assumes "apRead T reg s = (r, s')"
  shows "trace s' = trace s @ [EvApRead reg r]" and "logLevel s' = logLevel s"
    and "hw_apRead T reg (dev s) = (r, dev s')"
  using assms by (auto simp: apRead_def split: prod.splits)

lemma apWrite_run:
  assumes "apWrite T reg v s = (ok, s')"
  shows "trace s' = trace s @ [EvApWrite reg v ok]" and "logLevel s' = logLevel s"
    and "hw_apWrite T reg v (dev s) = (ok, dev s')"
  using assms by (auto simp: apWrite_def split: prod.splits)

lemma memStore_run:
  assumes "memStore T addr v s = (ok, s')"
  shows "trace s' = trace s @ [EvMemStore addr v ok]" and "logLevel s' = logLevel s"
  using assms by (auto simp: memStore_def split: prod.splits)

lemma memLoad_run:
  assumes "memLoad T addr s = (r, s')"
  shows "trace s' = trace s @ [EvMemLoad addr r]" and "logLevel s' = logLevel s"
  using assms by (auto simp: memLoad_def split: prod.splits)

lemma memStoreAndVerify_run:
  assumes "memStoreAndVerify T addr v s = (ok, s')"
  shows "(ok \<longrightarrow> trace s' = trace s @ [EvMemStore addr v True, EvMemLoad addr (Some v)])
       \<and> (\<not> ok \<longrightarrow> trace s' = trace s @ [EvMemStore addr v False]
                 \<or> (\<exists>r. r \<noteq> Some v \<and> trace s' = trace s @ [EvMemStore addr v True, EvMemLoad addr r]))"
  using assms
  by (auto simp: memStoreAndVerify_def split: prod.splits option.splits if_splits
           dest!: memStore_run(1) memLoad_run(1))

subsection \<open>Polling\<close>

lemma pollReads_Cons:
  "pollReads reg msk expected ok rds \<Longrightarrow> v AND msk \<noteq> expected AND msk
     \<Longrightarrow> pollReads reg msk expected ok (EvApRead reg (Some v) # rds)"
  by (auto simp: pollReads_def)

lemma apReadPoll_loop_run:
  "apReadPoll_loop T reg data msk expected n s = (ok, data', s') \<Longrightarrow>
     logLevel s' = logLevel s
     \<and> (\<exists>rds. trace s' = trace s @ rds \<and> pollReads reg msk expected ok rds)"
proof (induction n arbitrary: data s)
  case 0
  then show ?case
    by (auto simp: pollReads_def dest: apRead_run split: prod.splits option.splits)
next
  case (Suc n)
  obtain r s1 where rd: "apRead T reg s = (r, s1)" by (cases "apRead T reg s")
  note tr = apRead_run(1,2) [OF rd]
  show ?case
  proof (cases r)
    case None
    with Suc.prems rd tr show ?thesis by (auto simp: pollReads_def)
  next
    case (Some v)
    show ?thesis
    proof (cases "v AND msk = expected AND msk")
      case True
      with Suc.prems rd tr Some show ?thesis by (auto simp: pollReads_def)
    next
      case False
      with Suc.prems rd Some
      have "apReadPoll_loop T reg (Some v) msk expected n s1 = (ok, data', s')" by simp
      from Suc.IH [OF this] obtain rds where
        "logLevel s' = logLevel s1" "trace s' = trace s1 @ rds" "pollReads reg msk expected ok rds"
        by blast
      with tr Some False show ?thesis
        by (auto intro!: exI [of _ "EvApRead reg (Some v) # rds"] pollReads_Cons)
    qed
  qed
qed

lemma apReadPoll_run:
  assumes "apReadPoll T reg data msk expected n s = (ok, data', s')"
  shows "logLevel s' = logLevel s"
    and "\<exists>rds. trace s' = trace s @ rds @ [EvApReadPoll reg msk expected n ok]
            \<and> pollReads reg msk expected ok rds"
  using assms
  by (auto simp: apReadPoll_def split: prod.splits dest!: apReadPoll_loop_run)

lemma pollReads_reads: "pollReads reg msk expected ok rds \<Longrightarrow> e \<in> set rds \<Longrightarrow> \<exists>x. e = EvApRead reg x"
  by (cases rds rule: rev_cases) (auto simp: pollReads_def split: if_splits)

lemma pollReads_success:
  "pollReads reg msk expected True rds \<Longrightarrow>
     \<exists>v. EvApRead reg (Some v) \<in> set rds \<and> v AND msk = expected AND msk"
  by (cases rds rule: rev_cases) (auto simp: pollReads_def)

lemma pollReads_no_write [simp]: "pollReads reg msk expected ok rds \<Longrightarrow> filter isApWrite rds = []"
  by (auto simp: filter_empty_conv dest: pollReads_reads)

lemma pollReads_no_write_ex [simp]: "pollReads reg msk expected ok rds \<Longrightarrow> \<not> list_ex isApWrite rds"
  by (auto simp: list_ex_iff dest: pollReads_reads)

lemma pollReads_no_other [simp]:
  "pollReads reg msk expected ok rds \<Longrightarrow> reg \<noteq> reg' \<Longrightarrow> \<not> list_ex (isReadOf reg') rds"
  by (auto simp: list_ex_iff dest: pollReads_reads)

lemma pollReads_not_poll [simp]:
  "pollReads reg msk expected ok rds \<Longrightarrow> EvApReadPoll r m e n b \<notin> set rds"
  "pollReads reg msk expected ok rds \<Longrightarrow> EvApWrite r v b \<notin> set rds"
  "pollReads reg msk expected ok rds \<Longrightarrow> EvLog l msg args \<notin> set rds"
  by (auto dest: pollReads_reads)

lemma apReadPoll_loop_unfold:
  "apReadPoll_loop T reg data msk expected n s =
     (case apRead T reg s of
        (None, s1) \<Rightarrow> (False, data, s1)
      | (Some v, s1) \<Rightarrow>
          if v AND msk = expected AND msk then (True, Some v, s1)
          else (case n of 0 \<Rightarrow> (False, Some v, s1)
                | Suc k \<Rightarrow> apReadPoll_loop T reg (Some v) msk expected k s1))"
  by (cases n) (auto split: prod.splits option.splits)

lemmas replay_simps =
  replay_def start_def apRead_def apWrite_def memStore_def memLoad_def log_def emit_def
  apReadPoll_def initMemPort_def setLogLevel_def setLogLevel_save_def sampleReg_def

subsection \<open>detect\<close>



subsection \<open>peripheralInit\<close>

text \<open>
  Claim C8. A run of \<^verbatim>\<open>peripheralInit\<close> succeeds exactly if it consists of the two
  clock gate stores and the two store-and-verify round trips, all of them successful:
  both round trips go to the address \<open>0x20000000\<close>, the first with the pattern
  \<open>0x31415927\<close>, the second with \<open>0x76543210\<close>, and each reads back what it wrote.
  A run that ends in a read-back differing from the value just stored fails, whatever
  came before it, a successful first round trip included; and memory is only ever read
  at the address \<open>0x20000000\<close>.
\<close>

theorem peripheralInit_roundtrips:
  assumes "peripheralInit T c s = (r, s')" and "trace s' = trace s @ evs"
  shows "(r \<longleftrightarrow> evs =
            [EvMemStore (REG_SIM_SCGC5 c) 0x00043F82 True,
             EvMemStore (REG_SIM_SCGC6 c)
               (REG_SIM_SCGC6_FTM0 c OR REG_SIM_SCGC6_FTM1 c OR REG_SIM_SCGC6_FTFL c) True,
             EvMemStore 0x20000000 0x31415927 True, EvMemLoad 0x20000000 (Some 0x31415927),
             EvMemStore 0x20000000 0x76543210 True, EvMemLoad 0x20000000 (Some 0x76543210)])
       \<and> (\<forall>pre w v. evs = pre @ [EvMemStore 0x20000000 w True, EvMemLoad 0x20000000 (Some v)]
              \<and> v \<noteq> w \<longrightarrow> \<not> r)
       \<and> (\<forall>a v. EvMemLoad a v \<in> set evs \<longrightarrow> a = 0x20000000)"
  using assms
  by (auto simp: peripheralInit_def split: prod.splits if_splits
           dest!: memStore_run(1) memStoreAndVerify_run)

theorem peripheralInit_roundtrips_witness:
  "peripheralInit replay sampleReg
       (start ([Some 0x31415927, Some 0x31415927], [True, True, True, True]) LOG_NORMAL)
     = (False,
        \<lparr>dev = ([], []), logLevel = LOG_NORMAL,
         trace = [EvMemStore 0x40048038 0x00043F82 True,
                  EvMemStore 0x4004803C 0x03000001 True,
                  EvMemStore 0x20000000 0x31415927 True, EvMemLoad 0x20000000 (Some 0x31415927),
                  EvMemStore 0x20000000 0x76543210 True, EvMemLoad 0x20000000 (Some 0x31415927)]\<rparr>)
   \<and> (0x31415927 :: word32) \<noteq> 0x76543210"
  using peripheralInit_roundtrips
    [of replay sampleReg
        "start ([Some 0x31415927, Some 0x31415927], [True, True, True, True]) LOG_NORMAL"
        False
        "\<lparr>dev = ([], []), logLevel = LOG_NORMAL,
         trace = [EvMemStore 0x40048038 0x00043F82 True,
                  EvMemStore 0x4004803C 0x03000001 True,
                  EvMemStore 0x20000000 0x31415927 True, EvMemLoad 0x20000000 (Some 0x31415927),
                  EvMemStore 0x20000000 0x76543210 True, EvMemLoad 0x20000000 (Some 0x31415927)]\<rparr>"
        "[EvMemStore 0x40048038 0x00043F82 True,
                  EvMemStore 0x4004803C 0x03000001 True,
                  EvMemStore 0x20000000 0x31415927 True, EvMemLoad 0x20000000 (Some 0x31415927),
                  EvMemStore 0x20000000 0x76543210 True, EvMemLoad 0x20000000 (Some 0x31415927)]"]
  by (simp add: peripheralInit_def memStoreAndVerify_def replay_simps)

subsection \<open>flashMassErase\<close>

lemma flashMassErase_cases:
  assumes "flashMassErase T c s = (r, s')" and "trace s' = trace s @ evs"
  obtains
    (read_failed) "\<not> r" "evs = [EvApRead REG_MDM_STATUS None]"
  | (not_ready) st where "\<not> r" "st AND REG_MDM_STATUS_FLASH_READY c = 0"
      "evs = [EvApRead REG_MDM_STATUS (Some st),
              EvLog LOG_ERROR ''FLASH: Flash controller not ready before mass erase'' []]"
  | (in_progress) st where "\<not> r" "st AND REG_MDM_STATUS_FLASH_READY c \<noteq> 0"
      "st AND REG_MDM_STATUS_FLASH_ERASE_ACK c \<noteq> 0"
      "evs = [EvApRead REG_MDM_STATUS (Some st),
              EvLog LOG_ERROR ''FLASH: Mass erase already in progress'' []]"
  | (disabled) st where "\<not> r" "st AND REG_MDM_STATUS_FLASH_READY c \<noteq> 0"
      "st AND REG_MDM_STATUS_FLASH_ERASE_ACK c = 0"
      "st AND REG_MDM_STATUS_MASS_ERASE_ENABLE c = 0"
      "evs = [EvApRead REG_MDM_STATUS (Some st),
              EvLog LOG_ERROR ''FLASH: Mass erase is disabled!'' []]"
  | (write_failed) st where "\<not> r" "st AND REG_MDM_STATUS_FLASH_ERASE_ACK c = 0"
      "evs = [EvApRead REG_MDM_STATUS (Some st),
              EvLog LOG_NORMAL ''FLASH: Beginning mass erase operation'' [],
              EvApWrite REG_MDM_CONTROL
                (REG_MDM_CONTROL_CORE_HOLD_RESET c OR REG_MDM_CONTROL_MASS_ERASE c) False]"
  | (not_begun) st rds where "\<not> r" "st AND REG_MDM_STATUS_FLASH_ERASE_ACK c = 0"
      "pollReads REG_MDM_STATUS (REG_MDM_STATUS_FLASH_ERASE_ACK c) (- 1) False rds"
      "evs = [EvApRead REG_MDM_STATUS (Some st),
              EvLog LOG_NORMAL ''FLASH: Beginning mass erase operation'' [],
              EvApWrite REG_MDM_CONTROL
                (REG_MDM_CONTROL_CORE_HOLD_RESET c OR REG_MDM_CONTROL_MASS_ERASE c) True]
             @ rds @
             [EvApReadPoll REG_MDM_STATUS (REG_MDM_STATUS_FLASH_ERASE_ACK c) (- 1)
                (DEFAULT_RETRIES c) False,
              EvLog LOG_ERROR ''FLASH: Timed out waiting for mass erase to begin'' []]"
  | (not_completed) st rds rds2 where "\<not> r"
      "pollReads REG_MDM_STATUS (REG_MDM_STATUS_FLASH_ERASE_ACK c) (- 1) True rds"
      "pollReads REG_MDM_CONTROL (REG_MDM_CONTROL_MASS_ERASE c) 0 False rds2"
      "evs = [EvApRead REG_MDM_STATUS (Some st),
              EvLog LOG_NORMAL ''FLASH: Beginning mass erase operation'' [],
              EvApWrite REG_MDM_CONTROL
                (REG_MDM_CONTROL_CORE_HOLD_RESET c OR REG_MDM_CONTROL_MASS_ERASE c) True]
             @ rds @
             [EvApReadPoll REG_MDM_STATUS (REG_MDM_STATUS_FLASH_ERASE_ACK c) (- 1)
                (DEFAULT_RETRIES c) True]
             @ rds2 @
             [EvApReadPoll REG_MDM_CONTROL (REG_MDM_CONTROL_MASS_ERASE c) 0 10000 False,
              EvLog LOG_ERROR ''FLASH: Timed out waiting for mass erase to complete'' []]"
  | (reread) st rds rds2 fin where
      "pollReads REG_MDM_STATUS (REG_MDM_STATUS_FLASH_ERASE_ACK c) (- 1) True rds"
      "pollReads REG_MDM_CONTROL (REG_MDM_CONTROL_MASS_ERASE c) 0 True rds2"
      "evs = [EvApRead REG_MDM_STATUS (Some st),
              EvLog LOG_NORMAL ''FLASH: Beginning mass erase operation'' [],
              EvApWrite REG_MDM_CONTROL
                (REG_MDM_CONTROL_CORE_HOLD_RESET c OR REG_MDM_CONTROL_MASS_ERASE c) True]
             @ rds @
             [EvApReadPoll REG_MDM_STATUS (REG_MDM_STATUS_FLASH_ERASE_ACK c) (- 1)
                (DEFAULT_RETRIES c) True]
             @ rds2 @
             EvApReadPoll REG_MDM_CONTROL (REG_MDM_CONTROL_MASS_ERASE c) 0 10000 True # fin"
      "(\<not> r \<and> fin = [EvApRead REG_MDM_STATUS None])
       \<or> (\<exists>st2. \<not> r \<and> st2 AND REG_MDM_STATUS_FLASH_READY c = 0 \<and>
              fin = [EvApRead REG_MDM_STATUS (Some st2),
                     EvLog LOG_ERROR ''FLASH: Flash controller not ready after mass erase'' []])
       \<or> (\<exists>st2. r \<and> st2 AND REG_MDM_STATUS_FLASH_READY c \<noteq> 0 \<and>
              fin = [EvApRead REG_MDM_STATUS (Some st2),
                     EvLog LOG_NORMAL ''FLASH: Mass erase complete'' []])"
  using assms
  apply (simp add: flashMassErase_def Let_def split: prod.splits option.splits if_splits)
  apply (auto dest!: apWrite_run(1) apReadPoll_run(2) apRead_run(1))
  done

lemma flashMassErase_eraseOk:
  "flashMassErase replay sampleReg eraseOk
     = (True, \<lparr>dev = ([], []), logLevel = LOG_NORMAL, trace = eraseOkTrace\<rparr>)"
  by (simp add: flashMassErase_def eraseOk_def eraseOkTrace_def replay_simps
        apReadPoll_loop_unfold)

lemma flashMassErase_eraseStuck:
  "flashMassErase replay (sampleReg\<lparr>DEFAULT_RETRIES := 2\<rparr>) eraseStuck
     = (False, \<lparr>dev = ([], []), logLevel = LOG_NORMAL, trace = eraseStuckTrace\<rparr>)"
  by (simp add: flashMassErase_def eraseStuck_def eraseStuckTrace_def replay_simps
        apReadPoll_loop_unfold)

lemma replay_apRead:
  "hw_apRead replay reg (r # rs, ws) = (r, (rs, ws))"
  "hw_apRead replay reg ([], ws) = (None, ([], ws))"
  by (simp_all add: replay_def)

lemma replay_apWrite:
  "hw_apWrite replay reg v (rs, w # ws) = (w, (rs, ws))"
  "hw_apWrite replay reg v (rs, []) = (False, (rs, []))"
  by (simp_all add: replay_def)

lemma apReadPoll_loop_replay_stuck:
  "v AND msk \<noteq> expected AND msk \<Longrightarrow>
   apReadPoll_loop replay reg d msk expected n
     \<lparr>dev = (replicate (Suc n) (Some v) @ rs, ws), logLevel = l, trace = tr\<rparr>
   = (False, Some v,
      \<lparr>dev = (rs, ws), logLevel = l,
       trace = tr @ replicate (Suc n) (EvApRead reg (Some v))\<rparr>)"
proof (induction n arbitrary: d tr)
  case 0
  then show ?case by (simp add: apRead_def emit_def replay_apRead)
next
  case (Suc n)
  have "apReadPoll_loop replay reg d msk expected (Suc n)
     \<lparr>dev = (replicate (Suc (Suc n)) (Some v) @ rs, ws), logLevel = l, trace = tr\<rparr>
    = apReadPoll_loop replay reg (Some v) msk expected n
     \<lparr>dev = (replicate (Suc n) (Some v) @ rs, ws), logLevel = l,
      trace = tr @ [EvApRead reg (Some v)]\<rparr>"
    using Suc.prems by (simp add: apRead_def emit_def replay_apRead)
  also have "\<dots> = (False, Some v,
      \<lparr>dev = (rs, ws), logLevel = l,
       trace = (tr @ [EvApRead reg (Some v)]) @ replicate (Suc n) (EvApRead reg (Some v))\<rparr>)"
    by (rule Suc.IH [OF Suc.prems])
  finally show ?case by (simp add: replicate_app_Cons_same)
qed

lemma flashMassErase_eraseHung:
  "flashMassErase replay sampleReg eraseHung
     = (False, \<lparr>dev = ([], []), logLevel = LOG_NORMAL, trace = eraseHungTrace\<rparr>)"
proof -
  have stuck: "apReadPoll_loop replay REG_MDM_CONTROL None 0x01 0 10000
     \<lparr>dev = (replicate (Suc 10000) (Some 0x01) @ [], []), logLevel = LOG_NORMAL, trace = tr\<rparr>
   = (False, Some 0x01,
      \<lparr>dev = ([], []), logLevel = LOG_NORMAL,
       trace = tr @ replicate (Suc 10000) (EvApRead REG_MDM_CONTROL (Some 0x01))\<rparr>)" for tr
    by (rule apReadPoll_loop_replay_stuck) simp
  have first: "apReadPoll_loop replay REG_MDM_STATUS d 0x01 (- 1) 50
     \<lparr>dev = (Some 0x23 # rs, ws), logLevel = l, trace = tr\<rparr>
   = (True, Some 0x23,
      \<lparr>dev = (rs, ws), logLevel = l, trace = tr @ [EvApRead REG_MDM_STATUS (Some 0x23)]\<rparr>)"
    for d rs ws l tr
    by (subst apReadPoll_loop_unfold) (simp add: apRead_def emit_def replay_apRead)
  show ?thesis
    unfolding flashMassErase_def eraseHung_def start_def
    apply (simp add: apRead_def apWrite_def log_def emit_def sampleReg_def apReadPoll_def
        replay_apRead replay_apWrite first del: replicate_Suc replicate.simps)
    apply (simp only: stuck [simplified])
    apply (simp add: eraseHungTrace_def log_def emit_def del: replicate_Suc replicate.simps)
    done
qed

lemma flashMassErase_eraseNotReady:
  "flashMassErase replay sampleReg eraseNotReady
     = (False, \<lparr>dev = ([], []), logLevel = LOG_NORMAL, trace = eraseNotReadyTrace\<rparr>)"
  by (simp add: flashMassErase_def eraseNotReady_def eraseNotReadyTrace_def replay_simps
        apReadPoll_loop_unfold)

text \<open>
  Claim C1. Let \<open>status\<close> be what the read of the status register at the entry of
  \<^verbatim>\<open>flashMassErase\<close> delivers. With the flash-ready bit clear the run fails and
  consists of that read and the not-ready message; with flash-ready set and the erase
  acknowledge bit set it fails with the already-in-progress message; with flash-ready
  set, acknowledge clear and the enable bit clear it fails with the disabled message:
  none of the three runs holds a write. When all three checks pass, the run holds
  exactly one access port write, to the control register, whose value is the hold-reset
  and the mass-erase bits together; and a run that holds a write at all passed the
  three checks.
\<close>

theorem flashMassErase_preconditions:
  assumes "hw_apRead T REG_MDM_STATUS (dev s) = (Some status, d)"
    and "flashMassErase T c s = (r, s')" and "trace s' = trace s @ evs"
  shows "(status AND REG_MDM_STATUS_FLASH_READY c = 0 \<longrightarrow>
            \<not> r \<and> evs = [EvApRead REG_MDM_STATUS (Some status),
                         EvLog LOG_ERROR ''FLASH: Flash controller not ready before mass erase'' []])
       \<and> (status AND REG_MDM_STATUS_FLASH_READY c \<noteq> 0
            \<and> status AND REG_MDM_STATUS_FLASH_ERASE_ACK c \<noteq> 0 \<longrightarrow>
            \<not> r \<and> evs = [EvApRead REG_MDM_STATUS (Some status),
                         EvLog LOG_ERROR ''FLASH: Mass erase already in progress'' []])
       \<and> (status AND REG_MDM_STATUS_FLASH_READY c \<noteq> 0
            \<and> status AND REG_MDM_STATUS_FLASH_ERASE_ACK c = 0
            \<and> status AND REG_MDM_STATUS_MASS_ERASE_ENABLE c = 0 \<longrightarrow>
            \<not> r \<and> evs = [EvApRead REG_MDM_STATUS (Some status),
                         EvLog LOG_ERROR ''FLASH: Mass erase is disabled!'' []])
       \<and> (status AND REG_MDM_STATUS_FLASH_READY c \<noteq> 0
            \<and> status AND REG_MDM_STATUS_FLASH_ERASE_ACK c = 0
            \<and> status AND REG_MDM_STATUS_MASS_ERASE_ENABLE c \<noteq> 0 \<longrightarrow>
            (filter isApWrite evs =
               [EvApWrite REG_MDM_CONTROL
                  (REG_MDM_CONTROL_CORE_HOLD_RESET c OR REG_MDM_CONTROL_MASS_ERASE c) True]
             \<or> filter isApWrite evs =
               [EvApWrite REG_MDM_CONTROL
                  (REG_MDM_CONTROL_CORE_HOLD_RESET c OR REG_MDM_CONTROL_MASS_ERASE c) False]))
       \<and> (list_ex isApWrite evs \<longrightarrow>
            status AND REG_MDM_STATUS_FLASH_READY c \<noteq> 0
            \<and> status AND REG_MDM_STATUS_FLASH_ERASE_ACK c = 0
            \<and> status AND REG_MDM_STATUS_MASS_ERASE_ENABLE c \<noteq> 0)"
proof -
  obtain r0 s0 where rd: "apRead T REG_MDM_STATUS s = (r0, s0)"
    by (cases "apRead T REG_MDM_STATUS s")
  from apRead_run [OF rd] assms(1) have r0: "r0 = Some status"
    and t0: "trace s0 = trace s @ [EvApRead REG_MDM_STATUS (Some status)]" by auto
  show ?thesis
    using assms(2,3) rd r0 t0
    by (auto simp: flashMassErase_def Let_def split: prod.splits option.splits if_splits
             dest!: apWrite_run(1) apReadPoll_run(2) apRead_run(1))
qed

theorem flashMassErase_preconditions_witness:
  "hw_apRead replay REG_MDM_STATUS (dev eraseOk)
     = (Some 0x22, ([Some 0x23, Some 0, Some 0x22], [True]))
   \<and> flashMassErase replay sampleReg eraseOk
     = (True, \<lparr>dev = ([], []), logLevel = LOG_NORMAL, trace = eraseOkTrace\<rparr>)
   \<and> filter isApWrite eraseOkTrace = [EvApWrite REG_MDM_CONTROL 0x11 True]"
  using flashMassErase_preconditions
    [of replay eraseOk "0x22" "([Some 0x23, Some 0, Some 0x22], [True])" sampleReg True
        "\<lparr>dev = ([], []), logLevel = LOG_NORMAL, trace = eraseOkTrace\<rparr>" eraseOkTrace]
    flashMassErase_eraseOk
  by (simp add: eraseOk_def start_def replay_def) (simp add: eraseOkTrace_def)

text \<open>
  Claim C4. A run of \<^verbatim>\<open>flashMassErase\<close> whose entry checks pass and whose write of
  the control register succeeds goes on as the target answers: when the poll for the
  acknowledge bit fails, the result is failure with the failed-to-begin message, and
  the control register is never read or polled; when that poll succeeds and the poll
  of the control register (10000 retries) fails, failure with the failed-to-complete
  message; when both succeed and the final read of the status register shows
  flash-ready clear, failure with the not-ready-after message; success only when both
  polls succeed and the final read shows flash-ready set (the last conjunct, on the
  target's answers, and the one before it, on the trace). In terms of what the run
  read: no read of the status register with the acknowledge bit set gives the
  failed-to-begin message, and after a successful begin poll no read of the control
  register with the mass-erase bit clear gives the failed-to-complete message. Each of
  the three messages is logged only in its own family, and is then the last event.
\<close>

theorem flashMassErase_failures:
  assumes "flashMassErase T c s = (r, s')" and "trace s' = trace s @ evs"
  shows "(EvApWrite REG_MDM_CONTROL
            (REG_MDM_CONTROL_CORE_HOLD_RESET c OR REG_MDM_CONTROL_MASS_ERASE c) True \<in> set evs
          \<and> (\<forall>v. EvApRead REG_MDM_STATUS (Some v) \<in> set evs \<longrightarrow>
                 v AND REG_MDM_STATUS_FLASH_ERASE_ACK c \<noteq> REG_MDM_STATUS_FLASH_ERASE_ACK c)
          \<longrightarrow> \<not> r
              \<and> last evs = EvLog LOG_ERROR ''FLASH: Timed out waiting for mass erase to begin'' []
              \<and> \<not> list_ex (isReadOf REG_MDM_CONTROL) evs)
       \<and> (EvApReadPoll REG_MDM_STATUS (REG_MDM_STATUS_FLASH_ERASE_ACK c) (- 1)
             (DEFAULT_RETRIES c) False \<in> set evs
          \<longrightarrow> \<not> r
              \<and> last evs = EvLog LOG_ERROR ''FLASH: Timed out waiting for mass erase to begin'' []
              \<and> \<not> list_ex (isReadOf REG_MDM_CONTROL) evs)
       \<and> (EvApReadPoll REG_MDM_CONTROL (REG_MDM_CONTROL_MASS_ERASE c) 0 10000 False \<in> set evs
          \<longrightarrow> \<not> r
              \<and> last evs = EvLog LOG_ERROR ''FLASH: Timed out waiting for mass erase to complete'' [])
       \<and> (\<forall>pre v e. evs = pre @ [EvApReadPoll REG_MDM_CONTROL (REG_MDM_CONTROL_MASS_ERASE c) 0 10000 True,
                                 EvApRead REG_MDM_STATUS (Some v), e]
              \<and> v AND REG_MDM_STATUS_FLASH_READY c = 0
          \<longrightarrow> \<not> r
              \<and> e = EvLog LOG_ERROR ''FLASH: Flash controller not ready after mass erase'' [])
       \<and> (EvLog LOG_ERROR ''FLASH: Timed out waiting for mass erase to begin'' [] \<in> set evs
          \<longrightarrow> EvApReadPoll REG_MDM_STATUS (REG_MDM_STATUS_FLASH_ERASE_ACK c) (- 1)
                (DEFAULT_RETRIES c) False \<in> set evs)
       \<and> (EvLog LOG_ERROR ''FLASH: Timed out waiting for mass erase to complete'' [] \<in> set evs
          \<longrightarrow> EvApReadPoll REG_MDM_CONTROL (REG_MDM_CONTROL_MASS_ERASE c) 0 10000 False \<in> set evs)
       \<and> (EvLog LOG_ERROR ''FLASH: Flash controller not ready after mass erase'' [] \<in> set evs
          \<longrightarrow> EvApReadPoll REG_MDM_CONTROL (REG_MDM_CONTROL_MASS_ERASE c) 0 10000 True \<in> set evs)
       \<and> (EvApReadPoll REG_MDM_STATUS (REG_MDM_STATUS_FLASH_ERASE_ACK c) (- 1)
             (DEFAULT_RETRIES c) True \<in> set evs
          \<and> (\<forall>v. EvApRead REG_MDM_CONTROL (Some v) \<in> set evs \<longrightarrow>
                 v AND REG_MDM_CONTROL_MASS_ERASE c \<noteq> 0)
          \<longrightarrow> \<not> r
              \<and> last evs = EvLog LOG_ERROR ''FLASH: Timed out waiting for mass erase to complete'' []
              \<and> EvApReadPoll REG_MDM_CONTROL (REG_MDM_CONTROL_MASS_ERASE c) 0 10000 False \<in> set evs)
       \<and> (r \<longrightarrow>
            (\<exists>pre v. evs = pre @ [EvApReadPoll REG_MDM_CONTROL (REG_MDM_CONTROL_MASS_ERASE c) 0 10000 True,
                                  EvApRead REG_MDM_STATUS (Some v),
                                  EvLog LOG_NORMAL ''FLASH: Mass erase complete'' []]
               \<and> v AND REG_MDM_STATUS_FLASH_READY c \<noteq> 0
               \<and> EvApReadPoll REG_MDM_STATUS (REG_MDM_STATUS_FLASH_ERASE_ACK c) (- 1)
                   (DEFAULT_RETRIES c) True \<in> set pre))
       \<and> (\<forall>st s1 s2 okB dB s3 okC dC s4 x s5.
            apRead T REG_MDM_STATUS s = (Some st, s1)
            \<and> st AND REG_MDM_STATUS_FLASH_READY c \<noteq> 0
            \<and> st AND REG_MDM_STATUS_FLASH_ERASE_ACK c = 0
            \<and> st AND REG_MDM_STATUS_MASS_ERASE_ENABLE c \<noteq> 0
            \<and> apWrite T REG_MDM_CONTROL
                  (REG_MDM_CONTROL_CORE_HOLD_RESET c OR REG_MDM_CONTROL_MASS_ERASE c)
                  (log LOG_NORMAL ''FLASH: Beginning mass erase operation'' [] s1) = (True, s2)
            \<and> apReadPoll T REG_MDM_STATUS (Some st) (REG_MDM_STATUS_FLASH_ERASE_ACK c) (- 1)
                  (DEFAULT_RETRIES c) s2 = (okB, dB, s3)
            \<and> apReadPoll T REG_MDM_CONTROL None (REG_MDM_CONTROL_MASS_ERASE c) 0 10000 s3
                  = (okC, dC, s4)
            \<and> apRead T REG_MDM_STATUS s4 = (x, s5)
          \<longrightarrow> (r, s') =
                (if \<not> okB
                 then (False, log LOG_ERROR ''FLASH: Timed out waiting for mass erase to begin'' [] s3)
                 else if \<not> okC
                 then (False,
                       log LOG_ERROR ''FLASH: Timed out waiting for mass erase to complete'' [] s4)
                 else (case x of
                         None \<Rightarrow> (False, s5)
                       | Some v \<Rightarrow>
                           if v AND REG_MDM_STATUS_FLASH_READY c = 0
                           then (False,
                                 log LOG_ERROR
                                   ''FLASH: Flash controller not ready after mass erase'' [] s5)
                           else (True, log LOG_NORMAL ''FLASH: Mass erase complete'' [] s5))))"
  (is "?A \<and> ?B \<and> ?C \<and> ?D \<and> ?E \<and> ?F \<and> ?G \<and> ?H \<and> ?I \<and> ?J")
proof -
  have rev3: "\<And>pre a b e. rev (pre @ [a, b, e]) = e # b # a # rev pre" by simp
  have A: ?A
    using assms
    by (cases rule: flashMassErase_cases) (auto dest!: pollReads_success)
  have B: ?B
    using assms
    by (cases rule: flashMassErase_cases) auto
  have C: ?C
    using assms
    by (cases rule: flashMassErase_cases) auto
  have D: ?D
  proof (intro allI impI, elim conjE)
    fix pre v e
    assume e: "evs = pre @ [EvApReadPoll REG_MDM_CONTROL (REG_MDM_CONTROL_MASS_ERASE c) 0 10000 True,
                 EvApRead REG_MDM_STATUS (Some v), e]"
      and v: "v AND REG_MDM_STATUS_FLASH_READY c = 0"
    from e have r: "rev evs = e # EvApRead REG_MDM_STATUS (Some v) #
        EvApReadPoll REG_MDM_CONTROL (REG_MDM_CONTROL_MASS_ERASE c) 0 10000 True # rev pre"
      by simp
    from assms show "\<not> r \<and> e = EvLog LOG_ERROR ''FLASH: Flash controller not ready after mass erase'' []"
      using r v
      by (cases rule: flashMassErase_cases) auto
  qed
  have E: ?E
    using assms
    by (cases rule: flashMassErase_cases) auto
  have F: ?F
    using assms
    by (cases rule: flashMassErase_cases) auto
  have G: ?G
    using assms
    by (cases rule: flashMassErase_cases) auto
  have H: ?H
    using assms
    by (cases rule: flashMassErase_cases) (auto dest!: pollReads_success)
  have I: ?I
    using assms
    by (cases rule: flashMassErase_cases) auto
  have J: ?J
    using assms(1)
    by (auto simp: flashMassErase_def split: option.splits)
  from A B C D E F G H I J show ?thesis by blast
qed

theorem flashMassErase_failures_witness:
  "flashMassErase replay (sampleReg\<lparr>DEFAULT_RETRIES := 2\<rparr>) eraseStuck
     = (False, \<lparr>dev = ([], []), logLevel = LOG_NORMAL, trace = eraseStuckTrace\<rparr>)
   \<and> EvApWrite REG_MDM_CONTROL 0x11 True \<in> set eraseStuckTrace
   \<and> filter (isReadOf REG_MDM_STATUS) eraseStuckTrace
       = [EvApRead REG_MDM_STATUS (Some 0x22), EvApRead REG_MDM_STATUS (Some 0x22),
          EvApRead REG_MDM_STATUS (Some 0x22), EvApRead REG_MDM_STATUS (Some 0x22),
          EvApReadPoll REG_MDM_STATUS 0x01 (- 1) 2 False]
   \<and> (0x22 :: word32) AND 0x01 \<noteq> 0x01
   \<and> last eraseStuckTrace = EvLog LOG_ERROR ''FLASH: Timed out waiting for mass erase to begin'' []
   \<and> \<not> list_ex (isReadOf REG_MDM_CONTROL) eraseStuckTrace
   \<and> flashMassErase replay sampleReg eraseHung
     = (False, \<lparr>dev = ([], []), logLevel = LOG_NORMAL, trace = eraseHungTrace\<rparr>)
   \<and> EvApReadPoll REG_MDM_STATUS 0x01 (- 1) 50 True \<in> set eraseHungTrace
   \<and> filter (isReadOf REG_MDM_CONTROL) eraseHungTrace
       = replicate (Suc 10000) (EvApRead REG_MDM_CONTROL (Some 0x01))
         @ [EvApReadPoll REG_MDM_CONTROL 0x01 0 10000 False]
   \<and> (0x01 :: word32) AND 0x01 \<noteq> 0
   \<and> last eraseHungTrace
       = EvLog LOG_ERROR ''FLASH: Timed out waiting for mass erase to complete'' []
   \<and> flashMassErase replay sampleReg eraseNotReady
     = (False, \<lparr>dev = ([], []), logLevel = LOG_NORMAL, trace = eraseNotReadyTrace\<rparr>)
   \<and> eraseNotReadyTrace
       = take 6 eraseNotReadyTrace
         @ [EvApReadPoll REG_MDM_CONTROL 0x01 0 10000 True, EvApRead REG_MDM_STATUS (Some 0x20),
            EvLog LOG_ERROR ''FLASH: Flash controller not ready after mass erase'' []]
   \<and> (0x20 :: word32) AND 0x02 = 0"
proof -
  let ?c2 = "sampleReg\<lparr>DEFAULT_RETRIES := 2\<rparr>"
  have c: "REG_MDM_CONTROL_CORE_HOLD_RESET sampleReg OR REG_MDM_CONTROL_MASS_ERASE sampleReg = 0x11"
    "REG_MDM_STATUS_FLASH_ERASE_ACK sampleReg = 0x01" "REG_MDM_CONTROL_MASS_ERASE sampleReg = 0x01"
    "REG_MDM_STATUS_FLASH_READY sampleReg = 0x02" "DEFAULT_RETRIES sampleReg = 50"
    "REG_MDM_CONTROL_CORE_HOLD_RESET ?c2 OR REG_MDM_CONTROL_MASS_ERASE ?c2 = 0x11"
    "REG_MDM_STATUS_FLASH_ERASE_ACK ?c2 = 0x01" "DEFAULT_RETRIES ?c2 = 2"
    by (simp_all add: sampleReg_def)
  \<comment> \<open>not begun\<close>
  have tr1: "trace \<lparr>dev = ([], []), logLevel = LOG_NORMAL, trace = eraseStuckTrace\<rparr>
      = trace eraseStuck @ eraseStuckTrace"
    by (simp add: eraseStuck_def start_def)
  have w1: "EvApWrite REG_MDM_CONTROL 0x11 True \<in> set eraseStuckTrace"
    and s1: "\<forall>v. EvApRead REG_MDM_STATUS (Some v) \<in> set eraseStuckTrace \<longrightarrow> v AND 0x01 \<noteq> 0x01"
    and f1: "filter (isReadOf REG_MDM_STATUS) eraseStuckTrace
       = [EvApRead REG_MDM_STATUS (Some 0x22), EvApRead REG_MDM_STATUS (Some 0x22),
          EvApRead REG_MDM_STATUS (Some 0x22), EvApRead REG_MDM_STATUS (Some 0x22),
          EvApReadPoll REG_MDM_STATUS 0x01 (- 1) 2 False]"
    by (auto simp: eraseStuckTrace_def)
  from flashMassErase_failures [OF flashMassErase_eraseStuck tr1] w1 s1
  have r1: "last eraseStuckTrace
        = EvLog LOG_ERROR ''FLASH: Timed out waiting for mass erase to begin'' []"
      "\<not> list_ex (isReadOf REG_MDM_CONTROL) eraseStuckTrace"
    unfolding c by blast+
  \<comment> \<open>not completed\<close>
  have tr2: "trace \<lparr>dev = ([], []), logLevel = LOG_NORMAL, trace = eraseHungTrace\<rparr>
      = trace eraseHung @ eraseHungTrace"
    by (simp add: eraseHung_def start_def)
  have b2: "EvApReadPoll REG_MDM_STATUS 0x01 (- 1) 50 True \<in> set eraseHungTrace"
    and s2: "\<forall>v. EvApRead REG_MDM_CONTROL (Some v) \<in> set eraseHungTrace \<longrightarrow> v AND 0x01 \<noteq> 0"
    and f2: "filter (isReadOf REG_MDM_CONTROL) eraseHungTrace
       = replicate (Suc 10000) (EvApRead REG_MDM_CONTROL (Some 0x01))
         @ [EvApReadPoll REG_MDM_CONTROL 0x01 0 10000 False]"
    by (auto simp: eraseHungTrace_def simp del: replicate_Suc replicate.simps)
  from flashMassErase_failures [OF flashMassErase_eraseHung tr2] b2 s2
  have r2: "last eraseHungTrace
        = EvLog LOG_ERROR ''FLASH: Timed out waiting for mass erase to complete'' []"
    unfolding c by blast
  \<comment> \<open>not ready after\<close>
  have tr3: "trace \<lparr>dev = ([], []), logLevel = LOG_NORMAL, trace = eraseNotReadyTrace\<rparr>
      = trace eraseNotReady @ eraseNotReadyTrace"
    by (simp add: eraseNotReady_def start_def)
  have e30: "eraseNotReadyTrace
       = take 6 eraseNotReadyTrace
         @ [EvApReadPoll REG_MDM_CONTROL 0x01 0 10000 True, EvApRead REG_MDM_STATUS (Some 0x20),
            last eraseNotReadyTrace]"
    by (simp add: eraseNotReadyTrace_def)
  have v3: "(0x20 :: word32) AND 0x02 = 0" by simp
  from flashMassErase_failures [OF flashMassErase_eraseNotReady tr3]
  have "\<forall>pre v e. eraseNotReadyTrace =
          pre @ [EvApReadPoll REG_MDM_CONTROL 0x01 0 10000 True, EvApRead REG_MDM_STATUS (Some v), e]
          \<and> v AND 0x02 = 0
        \<longrightarrow> \<not> False
            \<and> e = EvLog LOG_ERROR ''FLASH: Flash controller not ready after mass erase'' []"
    unfolding c by blast
  with e30 v3 have r3: "last eraseNotReadyTrace
      = EvLog LOG_ERROR ''FLASH: Flash controller not ready after mass erase'' []"
    by blast
  from e30 r3 have e3: "eraseNotReadyTrace
       = take 6 eraseNotReadyTrace
         @ [EvApReadPoll REG_MDM_CONTROL 0x01 0 10000 True, EvApRead REG_MDM_STATUS (Some 0x20),
            EvLog LOG_ERROR ''FLASH: Flash controller not ready after mass erase'' []]"
    by simp
  from flashMassErase_eraseStuck w1 f1 r1 flashMassErase_eraseHung b2 f2 r2
    flashMassErase_eraseNotReady e3
  show ?thesis by simp
qed

subsection \<open>resetHalt: phases 1 to 4\<close>

lemma resetHalt_refines:
  "resetHalt T c s =
     (let (ok, status, s1) = runOps T (setupOps c) None s
      in if \<not> ok then (False, s1) else haltPhase T s1)"
  by (simp add: resetHalt_def setupOps_def haltPhase_def Let_def split: prod.splits)

lemma runOps_append:
  "runOps T (ops1 @ ops2) status s =
     (let (ok, status1, s1) = runOps T ops1 status s
      in if \<not> ok then (False, status1, s1) else runOps T ops2 status1 s1)"
  by (induction T ops1 status s rule: runOps.induct) (auto split: prod.splits)

lemma pollReads_evReg: "pollReads reg msk expected ok rds \<Longrightarrow> e \<in> set rds \<Longrightarrow> evReg e = Some reg"
  by (auto dest: pollReads_reads)

lemma pollReads_no_op [simp]: "pollReads reg msk expected ok rds \<Longrightarrow> filter isOpEvent rds = []"
  by (auto simp: filter_empty_conv dest: pollReads_reads)

lemma runOps_run:
  "runOps T ops status s = (ok, status', s') \<Longrightarrow>
     logLevel s' = logLevel s
     \<and> (\<exists>evs. trace s' = trace s @ evs
          \<and> (\<forall>e\<in>set evs. evReg e \<in> Some ` opReg ` set ops)
          \<and> (ok \<longrightarrow> filter isOpEvent evs = map (opDone True) ops)
          \<and> (\<not> ok \<longrightarrow> (\<exists>k<length ops.
                 filter isOpEvent evs = map (opDone True) (take k ops) @ [opDone False (ops ! k)]
                 \<and> last evs = opDone False (ops ! k) \<and> evs \<noteq> [])))"
proof (induction ops arbitrary: status s)
  case Nil
  then show ?case by simp
next
  case (Cons op ops)
  show ?case
  proof (cases op)
  case (OpWrite reg v)
  note prems = Cons.prems [unfolded OpWrite]
  obtain ok1 s1 where w: "apWrite T reg v s = (ok1, s1)" by (cases "apWrite T reg v s")
  note tr = apWrite_run(1,2) [OF w]
  show ?thesis
  proof (cases ok1)
    case False
    with prems w tr show ?thesis unfolding OpWrite by auto
  next
    case True
    with prems w have run: "runOps T ops status s1 = (ok, status', s')" by simp
    from Cons.IH [OF run] obtain evs where
      ih: "logLevel s' = logLevel s1" "trace s' = trace s1 @ evs"
        "\<forall>e\<in>set evs. evReg e \<in> Some ` opReg ` set ops"
        "ok \<longrightarrow> filter isOpEvent evs = map (opDone True) ops"
        "\<not> ok \<longrightarrow> (\<exists>k<length ops.
                 filter isOpEvent evs = map (opDone True) (take k ops) @ [opDone False (ops ! k)]
                 \<and> last evs = opDone False (ops ! k) \<and> evs \<noteq> [])"
      by auto
    show ?thesis unfolding OpWrite
    proof (intro conjI exI [of _ "EvApWrite reg v True # evs"] impI)
      show "logLevel s' = logLevel s" using ih tr by simp
      show "trace s' = trace s @ EvApWrite reg v True # evs" using ih tr True by simp
      show "\<forall>e\<in>set (EvApWrite reg v True # evs). evReg e \<in> Some ` opReg ` set (OpWrite reg v # ops)"
        using ih(3) by auto
      show "filter isOpEvent (EvApWrite reg v True # evs) = map (opDone True) (OpWrite reg v # ops)"
        if ok using ih(4) that by simp
      show "\<exists>k<length (OpWrite reg v # ops).
          filter isOpEvent (EvApWrite reg v True # evs) =
            map (opDone True) (take k (OpWrite reg v # ops)) @ [opDone False ((OpWrite reg v # ops) ! k)]
          \<and> last (EvApWrite reg v True # evs) = opDone False ((OpWrite reg v # ops) ! k)
          \<and> EvApWrite reg v True # evs \<noteq> []"
        if "\<not> ok"
      proof -
        from ih(5) that obtain k where k: "k < length ops"
          "filter isOpEvent evs = map (opDone True) (take k ops) @ [opDone False (ops ! k)]"
          "last evs = opDone False (ops ! k)" "evs \<noteq> []" by auto
        then show ?thesis by (intro exI [of _ "Suc k"]) simp
      qed
    qed
  qed
next
  case (OpPoll reg msk expected retries)
  note prems = Cons.prems [unfolded OpPoll]
  obtain ok1 st1 s1 where p: "apReadPoll T reg status msk expected retries s = (ok1, st1, s1)"
    by (cases "apReadPoll T reg status msk expected retries s")
  from apReadPoll_run [OF p] obtain rds where
    tr: "logLevel s1 = logLevel s"
      "trace s1 = trace s @ rds @ [EvApReadPoll reg msk expected retries ok1]"
      "pollReads reg msk expected ok1 rds" by auto
  show ?thesis
  proof (cases ok1)
    case False
    with prems p have "ok = False" "s' = s1" by auto
    with tr False show ?thesis unfolding OpPoll
      by (auto intro!: exI [of _ "rds @ [EvApReadPoll reg msk expected retries False]"]
               dest: pollReads_evReg)
  next
    case True
    with prems p have run: "runOps T ops st1 s1 = (ok, status', s')" by simp
    from Cons.IH [OF run] obtain evs where
      ih: "logLevel s' = logLevel s1" "trace s' = trace s1 @ evs"
        "\<forall>e\<in>set evs. evReg e \<in> Some ` opReg ` set ops"
        "ok \<longrightarrow> filter isOpEvent evs = map (opDone True) ops"
        "\<not> ok \<longrightarrow> (\<exists>k<length ops.
                 filter isOpEvent evs = map (opDone True) (take k ops) @ [opDone False (ops ! k)]
                 \<and> last evs = opDone False (ops ! k) \<and> evs \<noteq> [])"
      by auto
    let ?evs = "rds @ EvApReadPoll reg msk expected retries True # evs"
    let ?ops = "OpPoll reg msk expected retries # ops"
    show ?thesis unfolding OpPoll
    proof (intro conjI exI [of _ ?evs] impI)
      show "logLevel s' = logLevel s" using ih tr by simp
      show "trace s' = trace s @ ?evs" using ih tr True by simp
      show "\<forall>e\<in>set ?evs. evReg e \<in> Some ` opReg ` set ?ops"
        using ih(3) tr(3) by (auto dest: pollReads_evReg)
      show "filter isOpEvent ?evs = map (opDone True) ?ops"
        if ok using ih(4) that tr(3) by simp
      show "\<exists>k<length ?ops.
          filter isOpEvent ?evs = map (opDone True) (take k ?ops) @ [opDone False (?ops ! k)]
          \<and> last ?evs = opDone False (?ops ! k) \<and> ?evs \<noteq> []"
        if "\<not> ok"
      proof -
        from ih(5) that obtain k where k: "k < length ops"
          "filter isOpEvent evs = map (opDone True) (take k ops) @ [opDone False (ops ! k)]"
          "last evs = opDone False (ops ! k)" "evs \<noteq> []" by auto
        then show ?thesis using tr(3) by (intro exI [of _ "Suc k"]) simp
      qed
    qed
  qed
  qed
qed

subsection \<open>resetHalt: the halt race\<close>

lemma lastDhcsr_append [simp]: "lastDhcsr d (xs @ ys) = lastDhcsr (lastDhcsr d xs) ys"
  by (induction xs arbitrary: d) auto

lemma haltLoop_run:
  "haltLoop T n d s = (n', d', s') \<Longrightarrow>
     logLevel s' = logLevel s
     \<and> (\<exists>race. trace s' = trace s @ race
          \<and> list_all isDRW race
          \<and> d' = lastDhcsr d race
          \<and> n' + length (filter isApWrite race) = n
          \<and> (n' \<noteq> 0 \<longrightarrow> list_ex isHaltedRead race)
          \<and> (list_ex isHaltedRead race \<longrightarrow> race \<noteq> [] \<and> isHaltedRead (last race)))"
proof (induction n arbitrary: d s)
  case 0
  then show ?case by simp
next
  case (Suc n)
  obtain ok s1 where w: "apWrite T MEM_DRW 0xA05F0003 s = (ok, s1)"
    by (cases "apWrite T MEM_DRW 0xA05F0003 s")
  note tw = apWrite_run(1,2) [OF w]
  let ?W = "EvApWrite MEM_DRW 0xA05F0003 ok"
  have step: ?case
    if run: "haltLoop T n d1 s2 = (n', d', s')"
      and tr: "trace s2 = trace s @ pre" "logLevel s2 = logLevel s"
      and pre: "list_all isDRW pre" "lastDhcsr d pre = d1" "length (filter isApWrite pre) = 1"
        "\<not> list_ex isHaltedRead pre"
    for d1 s2 pre
  proof -
    from Suc.IH [OF run] obtain race where
      ih: "logLevel s' = logLevel s2" "trace s' = trace s2 @ race" "list_all isDRW race"
        "d' = lastDhcsr d1 race" "n' + length (filter isApWrite race) = n"
        "n' \<noteq> 0 \<longrightarrow> list_ex isHaltedRead race"
        "list_ex isHaltedRead race \<longrightarrow> race \<noteq> [] \<and> isHaltedRead (last race)"
      by auto
    show ?thesis
      using ih tr pre
      by (intro conjI exI [of _ "pre @ race"]) auto
  qed
  show ?case
  proof (cases ok)
    case False
    with Suc.prems w have "haltLoop T n d s1 = (n', d', s')" by simp
    from step [OF this, of "[?W]"] tw False show ?thesis by (simp add: isDRW_def)
  next
    case True
    obtain r s2 where rd: "apRead T MEM_DRW s1 = (r, s2)" by (cases "apRead T MEM_DRW s1")
    note trd = apRead_run(1,2) [OF rd]
    show ?thesis
    proof (cases r)
      case None
      with Suc.prems w True rd have "haltLoop T n d s2 = (n', d', s')" by simp
      from step [OF this, of "[?W, EvApRead MEM_DRW None]"] tw trd True None
      show ?thesis by (simp add: isDRW_def)
    next
      case (Some v)
      show ?thesis
      proof (cases "v AND push_bit 17 1 \<noteq> 0")
        case False
        with Suc.prems w True rd Some have "haltLoop T n (Some v) s2 = (n', d', s')" by simp
        from step [OF this, of "[?W, EvApRead MEM_DRW (Some v)]"] tw trd True Some False
        show ?thesis by (simp add: isDRW_def)
      next
        case halted: True
        with Suc.prems w True rd Some have "n' = n" "d' = Some v" "s' = s2" by auto
        with tw trd True Some halted show ?thesis
          by (intro conjI exI [of _ "[?W, EvApRead MEM_DRW (Some v)]"]) (auto simp: isDRW_def)
      qed
    qed
  qed
qed

lemma trace_initMemPort [simp]: "trace (initMemPort T s) = trace s @ [EvInitMemPort]"
  and logLevel_initMemPort [simp]: "logLevel (initMemPort T s) = logLevel s"
  by (simp_all add: initMemPort_def)

lemma trace_setLogLevel [simp]: "trace (setLogLevel lvl s) = trace s @ [EvSetLogLevel lvl]"
  and logLevel_setLogLevel [simp]: "logLevel (setLogLevel lvl s) = lvl"
  by (simp_all add: setLogLevel_def)

lemma haltPhase_run:
  assumes "haltPhase T s = (r, s')"
  shows "logLevel s' = logLevel s"
    and "\<exists>race. trace s' = trace s @ EvSetLogLevel LOG_NONE # race @
              [EvInitMemPort, EvSetLogLevel (logLevel s),
               if r then EvLog LOG_NORMAL ''CPU reset & halt successful. Now in debug mode.'' []
               else EvLog LOG_ERROR
                      ''ARMKinetisDebug: Failed to put CPU in debug halt state. (DHCSR: %08x)''
                      [lastDhcsr None race]]
          \<and> list_all isDRW race
          \<and> (r \<longleftrightarrow> length (filter isApWrite race) < 200)
          \<and> length (filter isApWrite race) \<le> 200
          \<and> (r \<longrightarrow> list_ex isHaltedRead race)
          \<and> (list_ex isHaltedRead race \<longrightarrow> race \<noteq> [] \<and> isHaltedRead (last race))"
proof -
  let ?s0 = "emit (EvSetLogLevel LOG_NONE) (s\<lparr>logLevel := LOG_NONE\<rparr>)"
  obtain n' d' s1 where h: "haltLoop T 200 None ?s0 = (n', d', s1)"
    by (cases "haltLoop T 200 None ?s0")
  from haltLoop_run [OF h] obtain race where
    race: "logLevel s1 = LOG_NONE" "trace s1 = trace s @ EvSetLogLevel LOG_NONE # race"
      "list_all isDRW race" "d' = lastDhcsr None race"
      "n' + length (filter isApWrite race) = 200"
      "n' \<noteq> 0 \<longrightarrow> list_ex isHaltedRead race"
      "list_ex isHaltedRead race \<longrightarrow> race \<noteq> [] \<and> isHaltedRead (last race)"
    by auto
  from assms h have r: "r = (n' \<noteq> 0)"
    and s': "s' = (if n' \<noteq> 0
        then log LOG_NORMAL ''CPU reset & halt successful. Now in debug mode.'' []
               (setLogLevel (logLevel s) (initMemPort T s1))
        else log LOG_ERROR
               ''ARMKinetisDebug: Failed to put CPU in debug halt state. (DHCSR: %08x)'' [d']
               (setLogLevel (logLevel s) (initMemPort T s1)))"
    by (auto simp: haltPhase_def setLogLevel_save_def Let_def split: if_splits)
  from s' show "logLevel s' = logLevel s" by simp
  show "\<exists>race. trace s' = trace s @ EvSetLogLevel LOG_NONE # race @
              [EvInitMemPort, EvSetLogLevel (logLevel s),
               if r then EvLog LOG_NORMAL ''CPU reset & halt successful. Now in debug mode.'' []
               else EvLog LOG_ERROR
                      ''ARMKinetisDebug: Failed to put CPU in debug halt state. (DHCSR: %08x)''
                      [lastDhcsr None race]]
          \<and> list_all isDRW race
          \<and> (r \<longleftrightarrow> length (filter isApWrite race) < 200)
          \<and> length (filter isApWrite race) \<le> 200
          \<and> (r \<longrightarrow> list_ex isHaltedRead race)
          \<and> (list_ex isHaltedRead race \<longrightarrow> race \<noteq> [] \<and> isHaltedRead (last race))"
    using race r s' by (intro exI [of _ race]) auto
qed

lemma setupOps_regs:
  "opReg ` set (setupOps c) = {REG_MDM_CONTROL, REG_MDM_STATUS, MEM_CSW, MEM_TAR}"
  by (auto simp: setupOps_def)

lemma resetHalt_cases:
  assumes "resetHalt T c s = (r, s')" and "trace s' = trace s @ evs"
  obtains
    (setup_failed) k where "\<not> r" "k < 8" "evs \<noteq> []"
      "filter isOpEvent evs = map (opDone True) (take k (setupOps c)) @ [opDone False (setupOps c ! k)]"
      "last evs = opDone False (setupOps c ! k)"
      "\<forall>e\<in>set evs. evReg e \<in> Some ` {REG_MDM_CONTROL, REG_MDM_STATUS, MEM_CSW, MEM_TAR}"
  | (raced) pre race where
      "evs = pre @ EvSetLogLevel LOG_NONE # race @
              [EvInitMemPort, EvSetLogLevel (logLevel s),
               if r then EvLog LOG_NORMAL ''CPU reset & halt successful. Now in debug mode.'' []
               else EvLog LOG_ERROR
                      ''ARMKinetisDebug: Failed to put CPU in debug halt state. (DHCSR: %08x)''
                      [lastDhcsr None race]]"
      "filter isOpEvent pre = map (opDone True) (setupOps c)"
      "\<forall>e\<in>set pre. evReg e \<in> Some ` {REG_MDM_CONTROL, REG_MDM_STATUS, MEM_CSW, MEM_TAR}"
      "logLevel s' = logLevel s"
      "list_all isDRW race"
      "r \<longleftrightarrow> length (filter isApWrite race) < 200"
      "length (filter isApWrite race) \<le> 200"
      "r \<longrightarrow> list_ex isHaltedRead race"
      "list_ex isHaltedRead race \<longrightarrow> race \<noteq> [] \<and> isHaltedRead (last race)"
proof -
  obtain ok st s1 where ops: "runOps T (setupOps c) None s = (ok, st, s1)"
    by (cases "runOps T (setupOps c) None s")
  from runOps_run [OF ops] obtain pre where
    pre: "logLevel s1 = logLevel s" "trace s1 = trace s @ pre"
      "\<forall>e\<in>set pre. evReg e \<in> Some ` opReg ` set (setupOps c)"
      "ok \<longrightarrow> filter isOpEvent pre = map (opDone True) (setupOps c)"
      "\<not> ok \<longrightarrow> (\<exists>k<length (setupOps c).
          filter isOpEvent pre = map (opDone True) (take k (setupOps c)) @ [opDone False (setupOps c ! k)]
          \<and> last pre = opDone False (setupOps c ! k) \<and> pre \<noteq> [])"
    by auto
  have len: "length (setupOps c) = 8" by (simp add: setupOps_def)
  show thesis
  proof (cases ok)
    case False
    with assms(1) ops have "\<not> r" "s' = s1" by (auto simp: resetHalt_refines)
    with pre assms(2) False len show thesis
      by (auto intro!: setup_failed simp: setupOps_regs)
  next
    case True
    with assms(1) ops have h: "haltPhase T s1 = (r, s')" by (simp add: resetHalt_refines)
    from haltPhase_run [OF h] pre True assms(2) show thesis
      by (auto intro!: raced simp: setupOps_regs)
  qed
qed

lemma levelAfter_append [simp]: "levelAfter lvl (xs @ ys) = levelAfter (levelAfter lvl xs) ys"
  by (induction xs arbitrary: lvl) auto

lemma suppressedAtRace_append [simp]:
  "suppressedAtRace lvl (xs @ ys) \<longleftrightarrow>
     suppressedAtRace lvl xs \<and> suppressedAtRace (levelAfter lvl xs) ys"
  by (induction xs arbitrary: lvl) auto

lemma levelAfter_regs: "\<forall>e\<in>set xs. evReg e \<noteq> None \<Longrightarrow> levelAfter lvl xs = lvl"
  by (induction xs arbitrary: lvl) (auto split: event.splits)

lemma suppressedAtRace_noDRW: "\<forall>e\<in>set xs. \<not> isDRW e \<Longrightarrow> suppressedAtRace lvl xs"
  by (induction xs arbitrary: lvl) auto

lemma suppressedAtRace_race:
  "\<forall>e\<in>set xs. isDRW e \<Longrightarrow> suppressedAtRace LOG_NONE xs"
  by (induction xs) (auto simp: isDRW_def split: event.splits)

lemma lastDhcsr_noDRW: "\<forall>e\<in>set xs. \<not> isDRW e \<Longrightarrow> lastDhcsr d xs = d"
  by (induction xs arbitrary: d) (auto simp: isDRW_def split: event.splits option.splits)

lemma lastDhcsr_None:
  "lastDhcsr d xs = None \<longleftrightarrow> d = None \<and> (\<forall>v. EvApRead MEM_DRW (Some v) \<notin> set xs)"
  by (induction xs arbitrary: d) (auto split: event.splits option.splits)

lemma lastDhcsr_Some:
  "lastDhcsr d xs = Some v \<Longrightarrow> d = Some v \<or> EvApRead MEM_DRW (Some v) \<in> set xs"
  by (induction xs arbitrary: d) (auto split: event.splits option.splits if_splits)

lemma isHaltedRead_read: "isHaltedRead e \<Longrightarrow> \<exists>v. e = EvApRead MEM_DRW (Some v)"
  by (cases e rule: isHaltedRead.cases) auto

lemma setup_regs_facts:
  assumes "\<forall>e\<in>set pre. evReg e \<in> Some ` {REG_MDM_CONTROL, REG_MDM_STATUS, MEM_CSW, MEM_TAR}"
  shows "\<forall>e\<in>set pre. \<not> isDRW e" and "\<forall>e\<in>set pre. evReg e \<noteq> None"
    and "EvInitMemPort \<notin> set pre" and "\<And>r. EvApRead MEM_DRW r \<notin> set pre"
  using assms by (auto simp: isDRW_def)

lemma take_subset_butlast: "k < length xs \<Longrightarrow> set (take k xs) \<subseteq> set (butlast xs)"
  by (metis butlast_conv_take diff_Suc_1 less_eq_Suc_le order_refl set_take_subset_set_take
        Suc_pred length_greater_0_conv list.size(3) not_less_zero zero_less_Suc Suc_le_mono le_simps(3))

lemma opDone_write:
  "opDone ok op = EvApWrite reg v b \<longleftrightarrow> op = OpWrite reg v \<and> ok = b"
  "EvApWrite reg v b = opDone ok op \<longleftrightarrow> op = OpWrite reg v \<and> ok = b"
  by (cases op; auto)+

lemma setup_failed_no_TAR:
  assumes "k < 8"
    and "filter isOpEvent evs =
           map (opDone True) (take k (setupOps c)) @ [opDone False (setupOps c ! k)]"
  shows "EvApWrite MEM_TAR v True \<notin> set evs"
proof
  assume "EvApWrite MEM_TAR v True \<in> set evs"
  then have "EvApWrite MEM_TAR v True \<in> set (filter isOpEvent evs)" by simp
  with assms(2) have "EvApWrite MEM_TAR v True \<in> opDone True ` set (take k (setupOps c))"
    by (auto simp: opDone_write)
  moreover have "set (take k (setupOps c)) \<subseteq> set (butlast (setupOps c))"
    using assms(1) by (intro take_subset_butlast) (simp add: setupOps_def)
  ultimately have "OpWrite MEM_TAR v \<in> set (butlast (setupOps c))"
    by (auto simp: opDone_write)
  then show False by (simp add: setupOps_def)
qed

subsection \<open>resetHalt on the scripted target\<close>

lemma replay_initMemPort: "hw_initMemPort replay d = d"
  by (simp add: replay_def)

lemma runOps_replay_setup:
  "runOps replay (setupOps sampleReg) None
     \<lparr>dev = (Some 0x08 # Some 0 # Some 0x0A # rs, True # True # True # True # True # ws),
      logLevel = l, trace = []\<rparr>
   = (True, Some 0x0A, \<lparr>dev = (rs, ws), logLevel = l, trace = setupTrace\<rparr>)"
  by (simp add: setupOps_def setupTrace_def resetRetries_def replay_simps apReadPoll_loop_unfold)

lemma haltLoop_replay_hit:
  "haltLoop replay (Suc n) d
     \<lparr>dev = (Some 0x00030003 # rs, True # ws), logLevel = l, trace = tr\<rparr>
   = (n, Some 0x00030003,
      \<lparr>dev = (rs, ws), logLevel = l,
       trace = tr @ [EvApWrite MEM_DRW 0xA05F0003 True, EvApRead MEM_DRW (Some 0x00030003)]\<rparr>)"
  by (simp add: replay_simps)

lemma haltLoop_replay_missed:
  "haltLoop replay (k + n) d
     \<lparr>dev = (replicate k (Some 0x03) @ rs, replicate k True @ ws), logLevel = l, trace = tr\<rparr>
   = haltLoop replay n (if k = 0 then d else Some 0x03)
       \<lparr>dev = (rs, ws), logLevel = l, trace = tr @ concat (replicate k missed)\<rparr>"
proof (induction k arbitrary: d tr)
  case 0
  show ?case by simp
next
  case (Suc k)
  have "haltLoop replay (Suc k + n) d
     \<lparr>dev = (replicate (Suc k) (Some 0x03) @ rs, replicate (Suc k) True @ ws),
      logLevel = l, trace = tr\<rparr>
    = haltLoop replay (k + n) (Some 0x03)
     \<lparr>dev = (replicate k (Some 0x03) @ rs, replicate k True @ ws),
      logLevel = l, trace = tr @ missed\<rparr>"
    by (simp add: replay_simps missed_def)
  then show ?case by (simp add: Suc.IH)
qed

lemma resetHalt_haltAt:
  assumes "0 < k" and "k \<le> 200"
  shows "resetHalt replay sampleReg (haltAt k)
       = (k < 200, \<lparr>dev = ([], []), logLevel = LOG_NORMAL, trace = raceTrace k\<rparr>)"
proof -
  from assms obtain j m where k: "k = Suc j" and m: "200 = j + Suc m" "m = 199 - j"
    by (cases k) auto
  have pre: "runOps replay (setupOps sampleReg) None (haltAt k)
      = (True, Some 0x0A,
         \<lparr>dev = (replicate j (Some 0x03) @ [Some 0x00030003], replicate j True @ [True]),
          logLevel = LOG_NORMAL, trace = setupTrace\<rparr>)"
  proof -
    have w: "replicate (5 + Suc j) True
        = True # True # True # True # True # (replicate j True @ [True])"
      by (simp add: replicate_add eval_nat_numeral replicate_append_same)
    show ?thesis
      unfolding haltAt_def start_def k w
      by (simp add: runOps_replay_setup)
  qed
  have loop: "haltLoop replay 200 None
      \<lparr>dev = (replicate j (Some 0x03) @ [Some 0x00030003], replicate j True @ [True]),
       logLevel = LOG_NONE, trace = setupTrace @ [EvSetLogLevel LOG_NONE]\<rparr>
     = (m, Some 0x00030003,
        \<lparr>dev = ([], []), logLevel = LOG_NONE,
         trace = setupTrace @ [EvSetLogLevel LOG_NONE] @ concat (replicate j missed) @
           [EvApWrite MEM_DRW 0xA05F0003 True, EvApRead MEM_DRW (Some 0x00030003)]\<rparr>)"
    unfolding m(1) by (simp only: haltLoop_replay_missed haltLoop_replay_hit) simp
  have lt: "k < 200 \<longleftrightarrow> m \<noteq> 0" using k m by auto
  show ?thesis
    unfolding resetHalt_refines pre
    by (simp add: haltPhase_def setLogLevel_save_def setLogLevel_def initMemPort_def log_def
          emit_def replay_initMemPort loop raceTrace_def k m(2) Let_def)
qed

lemma resetHalt_halt_on_fifth_attempt:
  "resetHalt replay sampleReg (haltAt 5)
     = (True, \<lparr>dev = ([], []), logLevel = LOG_NORMAL, trace = raceTrace 5\<rparr>)"
  using resetHalt_haltAt [of 5] by simp

lemma haltLoop_replay_dead:
  "haltLoop replay n d \<lparr>dev = (rs, []), logLevel = l, trace = tr\<rparr>
   = (0, d, \<lparr>dev = (rs, []), logLevel = l,
             trace = tr @ replicate n (EvApWrite MEM_DRW 0xA05F0003 False)\<rparr>)"
proof (induction n arbitrary: tr)
  case 0
  show ?case by simp
next
  case (Suc n)
  have "haltLoop replay (Suc n) d \<lparr>dev = (rs, []), logLevel = l, trace = tr\<rparr>
      = haltLoop replay n d
          \<lparr>dev = (rs, []), logLevel = l, trace = tr @ [EvApWrite MEM_DRW 0xA05F0003 False]\<rparr>"
    by (simp add: apWrite_def emit_def replay_apWrite)
  then show ?case by (simp add: Suc.IH replicate_app_Cons_same)
qed

lemma resetHalt_neverRead:
  "resetHalt replay sampleReg neverRead
     = (False, \<lparr>dev = ([], []), logLevel = LOG_NORMAL, trace = neverReadTrace\<rparr>)"
  unfolding resetHalt_refines neverRead_def start_def
  by (simp add: runOps_replay_setup)
     (simp add: haltPhase_def setLogLevel_save_def setLogLevel_def initMemPort_def log_def
        emit_def replay_initMemPort haltLoop_replay_dead neverReadTrace_def Let_def)

lemmas raceTrace_simps =
  haltAt_def start_def sampleReg_def raceTrace_def setupTrace_def missed_def isDRW_def
  setupOps_def resetRetries_def

subsection \<open>resetHalt: the claims\<close>

text \<open>
  Claim C2. The claim: \<^verbatim>\<open>resetHalt\<close> succeeds if and only if the halted bit is seen
  within the 200 attempts of the halt race. The source decides by
  \<^verbatim>\<open>if (haltRetries)\<close> after the loop, and the counter is decremented before the
  attempt: when the bit is seen at the 200th attempt the counter is 0 at the
  \<^verbatim>\<open>break\<close>. The run below is that one: phases 1 to 4 succeed, 199 attempts read
  DHCSR as \<open>0x03\<close>, the 200th reads \<open>0x00030003\<close>, with bit 17 set.
  \<^verbatim>\<open>resetHalt\<close> returns failure and logs the halt-failure message, with the value
  that shows the core halted. (Seen at the fifth attempt, the bit yields success:
  \<open>resetHalt_halt_on_fifth_attempt\<close>.)
\<close>

theorem resetHalt_halt_on_last_attempt:
  "resetHalt replay sampleReg (haltAt 200)
     = (False,
        \<lparr>dev = ([], []), logLevel = LOG_NORMAL,
         trace = setupTrace @ EvSetLogLevel LOG_NONE # concat (replicate 199 missed) @
           [EvApWrite MEM_DRW 0xA05F0003 True, EvApRead MEM_DRW (Some 0x00030003),
            EvInitMemPort, EvSetLogLevel LOG_NORMAL,
            EvLog LOG_ERROR
              ''ARMKinetisDebug: Failed to put CPU in debug halt state. (DHCSR: %08x)''
              [Some 0x00030003]]\<rparr>)
   \<and> isHaltedRead (EvApRead MEM_DRW (Some 0x00030003))
   \<and> \<not> isHaltedRead (EvApRead MEM_DRW (Some 0x03))
   \<and> length (filter isApWrite (concat (replicate 199 missed))) = 199"
proof -
  have "length (filter isApWrite (concat (replicate n missed))) = n" for n
    by (induction n) (simp_all add: missed_def)
  then show ?thesis
    using resetHalt_haltAt [of 200] by (simp add: raceTrace_def)
qed

text \<open>
  Claim C3. When the halt race is reached (the write of \<^verbatim>\<open>MEM_TAR\<close>, the last
  operation of phase 4, succeeded), then whether or not the halt is achieved: the run
  ends with \<^verbatim>\<open>initMemPort\<close>, the restoring of the log level to the level at the call, and
  one message; \<^verbatim>\<open>initMemPort\<close> is called exactly once, after all accesses of the loop;
  every access to \<^verbatim>\<open>MEM_DRW\<close> happens at the level \<^verbatim>\<open>LOG_NONE\<close>; and the level after
  the call is the level before it.
\<close>

theorem resetHalt_cleanup:
  assumes "resetHalt T c s = (r, s')" and "trace s' = trace s @ evs"
    and "EvApWrite MEM_TAR (REG_SCB_DHCSR c) True \<in> set evs"
  shows "logLevel s' = logLevel s
       \<and> levelAfter (logLevel s) evs = logLevel s
       \<and> suppressedAtRace (logLevel s) evs
       \<and> length (filter (\<lambda>e. e = EvInitMemPort) evs) = 1
       \<and> (\<exists>pre race fin. evs = pre @ EvSetLogLevel LOG_NONE # race
                                 @ [EvInitMemPort, EvSetLogLevel (logLevel s), fin]
             \<and> \<not> list_ex isDRW pre \<and> list_all isDRW race
             \<and> (\<exists>lvl msg args. fin = EvLog lvl msg args))"
  using assms(1,2)
proof (cases rule: resetHalt_cases)
  case (setup_failed k)
  with assms(3) setup_failed_no_TAR [OF setup_failed(2,4)] show ?thesis by simp
next
  case (raced pre race)
  note f = setup_regs_facts [OF raced(3)]
  from raced(5) have race: "\<forall>e\<in>set race. isDRW e" by (simp add: list_all_iff)
  then have noinit: "EvInitMemPort \<notin> set race" by (auto simp: isDRW_def)
  have 1: "levelAfter (logLevel s) evs = logLevel s"
    using raced(1) by (simp add: levelAfter_regs [OF f(2)])
  have 2: "suppressedAtRace (logLevel s) evs"
    using raced(1) race
    by (simp add: suppressedAtRace_noDRW [OF f(1)] levelAfter_regs [OF f(2)]
          suppressedAtRace_race levelAfter_regs isDRW_def)
  have 3: "length (filter (\<lambda>e. e = EvInitMemPort) evs) = 1"
    using raced(1) f(3) noinit by (auto simp: filter_empty_conv)
  have 4: "\<exists>pre race fin. evs = pre @ EvSetLogLevel LOG_NONE # race
                                 @ [EvInitMemPort, EvSetLogLevel (logLevel s), fin]
             \<and> \<not> list_ex isDRW pre \<and> list_all isDRW race
             \<and> (\<exists>lvl msg args. fin = EvLog lvl msg args)"
    using raced(1,5) f(1)
    by (intro exI [of _ pre] exI [of _ race]) (auto simp: list_ex_iff)
  from raced(4) 1 2 3 4 show ?thesis by blast
qed

theorem resetHalt_cleanup_witness:
  "resetHalt replay sampleReg (haltAt 2)
     = (True, \<lparr>dev = ([], []), logLevel = LOG_NORMAL, trace = raceTrace 2\<rparr>)
   \<and> EvApWrite MEM_TAR 0xE000EDF0 True \<in> set (raceTrace 2)
   \<and> levelAfter LOG_NORMAL (raceTrace 2) = LOG_NORMAL
   \<and> suppressedAtRace LOG_NORMAL (raceTrace 2)
   \<and> length (filter (\<lambda>e. e = EvInitMemPort) (raceTrace 2)) = 1"
  using resetHalt_cleanup
    [of replay sampleReg "haltAt 2" True
        "\<lparr>dev = ([], []), logLevel = LOG_NORMAL, trace = raceTrace 2\<rparr>" "raceTrace 2"]
    resetHalt_haltAt [of 2]
  by (simp add: raceTrace_simps)

text \<open>
  Claim C10. In a run that reaches the halt race, the failure message prints the
  variable \<^verbatim>\<open>dhcsr\<close>, which holds the value of the last read of \<^verbatim>\<open>MEM_DRW\<close> that
  delivered one, and nothing (\<open>None\<close>) if there was none. When no read of
  \<^verbatim>\<open>MEM_DRW\<close> delivered a value in any iteration, the run fails and the message prints
  the variable unassigned; a value the variable holds is one that a read delivered.
  (A read that fails is taken to leave the caller's variable alone, as the
  \<open>word32 option\<close> result of \<open>hw_apRead\<close> has it.)
\<close>

theorem resetHalt_dhcsr_report:
  assumes "resetHalt T c s = (r, s')" and "trace s' = trace s @ evs"
    and "EvApWrite MEM_TAR (REG_SCB_DHCSR c) True \<in> set evs"
  shows "(\<not> r \<longrightarrow> last evs =
            EvLog LOG_ERROR
              ''ARMKinetisDebug: Failed to put CPU in debug halt state. (DHCSR: %08x)''
              [lastDhcsr None evs])
       \<and> ((\<forall>v. EvApRead MEM_DRW (Some v) \<notin> set evs) \<longrightarrow>
            \<not> r \<and> last evs =
              EvLog LOG_ERROR
                ''ARMKinetisDebug: Failed to put CPU in debug halt state. (DHCSR: %08x)''
                [None])
       \<and> (\<forall>v. lastDhcsr None evs = Some v \<longrightarrow> EvApRead MEM_DRW (Some v) \<in> set evs)"
  using assms(1,2)
proof (cases rule: resetHalt_cases)
  case (setup_failed k)
  with assms(3) setup_failed_no_TAR [OF setup_failed(2,4)] show ?thesis by simp
next
  case (raced pre race)
  note f = setup_regs_facts [OF raced(3)]
  have d: "lastDhcsr None evs = lastDhcsr None race"
    using raced(1) by (simp add: lastDhcsr_noDRW [OF f(1)])
  have 1: "\<not> r \<longrightarrow> last evs =
            EvLog LOG_ERROR
              ''ARMKinetisDebug: Failed to put CPU in debug halt state. (DHCSR: %08x)''
              [lastDhcsr None evs]"
    unfolding d using raced(1) by simp
  have 3: "\<forall>v. lastDhcsr None evs = Some v \<longrightarrow> EvApRead MEM_DRW (Some v) \<in> set evs"
    unfolding d using raced(1) by (auto dest: lastDhcsr_Some)
  have 2: "\<not> r \<and> last evs =
              EvLog LOG_ERROR
                ''ARMKinetisDebug: Failed to put CPU in debug halt state. (DHCSR: %08x)''
                [None]"
    if no: "\<forall>v. EvApRead MEM_DRW (Some v) \<notin> set evs"
  proof -
    from no raced(1) have nr: "\<forall>v. EvApRead MEM_DRW (Some v) \<notin> set race" by auto
    then have "\<not> list_ex isHaltedRead race"
      by (auto simp: list_ex_iff dest: isHaltedRead_read)
    with raced(8) have "\<not> r" by blast
    moreover from nr have "lastDhcsr None race = None" by (simp add: lastDhcsr_None)
    ultimately show ?thesis using 1 d by simp
  qed
  from 1 2 3 show ?thesis by blast
qed

theorem resetHalt_dhcsr_report_witness:
  "resetHalt replay sampleReg neverRead
     = (False, \<lparr>dev = ([], []), logLevel = LOG_NORMAL, trace = neverReadTrace\<rparr>)
   \<and> EvApWrite MEM_TAR 0xE000EDF0 True \<in> set neverReadTrace
   \<and> filter (isReadOf MEM_DRW) neverReadTrace = []
   \<and> last neverReadTrace =
       EvLog LOG_ERROR
         ''ARMKinetisDebug: Failed to put CPU in debug halt state. (DHCSR: %08x)'' [None]
   \<and> lastDhcsr None neverReadTrace = None
   \<and> resetHalt replay sampleReg (haltAt 200)
     = (False, \<lparr>dev = ([], []), logLevel = LOG_NORMAL, trace = raceTrace 200\<rparr>)
   \<and> EvApWrite MEM_TAR 0xE000EDF0 True \<in> set (raceTrace 200)
   \<and> last (raceTrace 200) =
       EvLog LOG_ERROR
         ''ARMKinetisDebug: Failed to put CPU in debug halt state. (DHCSR: %08x)''
         [lastDhcsr None (raceTrace 200)]
   \<and> lastDhcsr None (raceTrace 200) = Some 0x00030003"
proof -
  have tar0: "EvApWrite MEM_TAR (REG_SCB_DHCSR sampleReg) True \<in> set neverReadTrace"
    by (simp add: neverReadTrace_def setupTrace_def sampleReg_def)
  have tr0: "trace \<lparr>dev = ([], []), logLevel = LOG_NORMAL, trace = neverReadTrace\<rparr>
      = trace neverRead @ neverReadTrace"
    by (simp add: neverRead_def start_def)
  have none: "\<forall>v. EvApRead MEM_DRW (Some v) \<notin> set neverReadTrace"
    by (simp add: neverReadTrace_def setupTrace_def)
  have noread: "filter (isReadOf MEM_DRW) neverReadTrace = []"
    by (simp add: neverReadTrace_def setupTrace_def)
  note rep0 = resetHalt_dhcsr_report [OF resetHalt_neverRead tr0 tar0]
  from rep0 none have l0: "last neverReadTrace =
       EvLog LOG_ERROR
         ''ARMKinetisDebug: Failed to put CPU in debug halt state. (DHCSR: %08x)'' [None]"
    by blast
  from rep0 l0 have d0: "lastDhcsr None neverReadTrace = None" by simp
  have run: "resetHalt replay sampleReg (haltAt 200)
     = (False, \<lparr>dev = ([], []), logLevel = LOG_NORMAL, trace = raceTrace 200\<rparr>)"
    using resetHalt_haltAt [of 200] by simp
  have tar: "EvApWrite MEM_TAR (REG_SCB_DHCSR sampleReg) True \<in> set (raceTrace 200)"
    by (simp add: raceTrace_def setupTrace_def sampleReg_def)
  have tr: "trace \<lparr>dev = ([], []), logLevel = LOG_NORMAL, trace = raceTrace 200\<rparr>
      = trace (haltAt 200) @ raceTrace 200"
    by (simp add: haltAt_def start_def)
  have l: "last (raceTrace 200) =
       EvLog LOG_ERROR
         ''ARMKinetisDebug: Failed to put CPU in debug halt state. (DHCSR: %08x)''
         [Some 0x00030003]"
    by (simp add: raceTrace_def)
  from resetHalt_dhcsr_report [OF run tr tar] l
  have d: "lastDhcsr None (raceTrace 200) = Some 0x00030003" by simp
  from resetHalt_neverRead tar0 noread l0 d0 run tar l d show ?thesis
    by (simp add: sampleReg_def)
qed



lemma safe_bits:
  fixes v n f sec :: word32
  assumes "v AND (n OR f OR sec) = (n OR f) AND (n OR f OR sec)" and "sec AND (n OR f) = 0"
  shows "v AND n = n" and "v AND f = f" and "v AND sec = 0"
proof -
  have b: "bit (v AND (n OR f OR sec)) i = bit ((n OR f) AND (n OR f OR sec)) i" for i
    using assms(1) by simp
  have z: "\<not> bit (sec AND (n OR f)) i" for i
    using assms(2) by simp
  show "v AND n = n"
    by (rule bit_eqI) (use b in \<open>auto simp: bit_and_iff bit_or_iff\<close>)
  show "v AND f = f"
    by (rule bit_eqI) (use b in \<open>auto simp: bit_and_iff bit_or_iff\<close>)
  show "v AND sec = 0"
    by (rule bit_eqI) (use b z in \<open>auto simp: bit_and_iff bit_or_iff\<close>)
qed

lemma pollReads_True_last:
  assumes "pollReads reg msk expected True rds"
  obtains rds' v where "rds = rds' @ [EvApRead reg (Some v)]"
    and "v AND msk = expected AND msk" and "\<forall>e\<in>set rds'. \<exists>x. e = EvApRead reg x"
proof -
  from assms have ne: "rds \<noteq> []" by (simp add: pollReads_def)
  then have sp: "rds = butlast rds @ [last rds]" by simp
  from assms obtain v where v: "last rds = EvApRead reg (Some v)" "v AND msk = expected AND msk"
    by (auto simp: pollReads_def)
  from assms have "\<forall>e\<in>set (butlast rds). \<exists>x. e = EvApRead reg x"
    by (auto simp: pollReads_def)
  with sp v that show thesis by metis
qed

text \<open>
  Claim C6. Whenever a run of \<^verbatim>\<open>resetHalt\<close> touches the memory access window at
  all (\<^verbatim>\<open>MEM_CSW\<close>, \<^verbatim>\<open>MEM_TAR\<close> or \<^verbatim>\<open>MEM_DRW\<close>), the run has the form
  \<open>pre\<close>, then a read of the status register delivering \<open>v\<close>, then the successful
  return of the poll of the status register with the mask reset-line, flash-ready and
  security, the expected value reset-line and flash-ready and 2000 retries, then
  \<open>post\<close>: nothing in \<open>pre\<close> touches the window, the operations of \<open>pre\<close> are the
  five of phases 1 and 2, \<open>post\<close> never reads the status register again, and \<open>v\<close>
  has the reset-line and flash-ready bits set and the security bit clear. The security
  mask is taken to share no bit with the other two.
\<close>

theorem resetHalt_safe_state:
  assumes run: "resetHalt T c s = (r, s')" and tr: "trace s' = trace s @ evs"
    and disj: "REG_MDM_STATUS_SYS_SECURITY c
                 AND (REG_MDM_STATUS_SYS_NRESET c OR REG_MDM_STATUS_FLASH_READY c) = 0"
    and mem: "list_ex isMemPort evs"
  shows "\<exists>pre v post.
           evs = pre @ [EvApRead REG_MDM_STATUS (Some v),
                        EvApReadPoll REG_MDM_STATUS
                          (REG_MDM_STATUS_SYS_NRESET c OR REG_MDM_STATUS_FLASH_READY c
                             OR REG_MDM_STATUS_SYS_SECURITY c)
                          (REG_MDM_STATUS_SYS_NRESET c OR REG_MDM_STATUS_FLASH_READY c)
                          2000 True] @ post
         \<and> \<not> list_ex isMemPort pre
         \<and> filter isOpEvent pre = map (opDone True) (take 5 (setupOps c))
         \<and> v AND REG_MDM_STATUS_SYS_NRESET c = REG_MDM_STATUS_SYS_NRESET c
         \<and> v AND REG_MDM_STATUS_FLASH_READY c = REG_MDM_STATUS_FLASH_READY c
         \<and> v AND REG_MDM_STATUS_SYS_SECURITY c = 0
         \<and> \<not> list_ex (isReadOf REG_MDM_STATUS) post"
proof -
  let ?M = "REG_MDM_STATUS_SYS_NRESET c OR REG_MDM_STATUS_FLASH_READY c
              OR REG_MDM_STATUS_SYS_SECURITY c"
  let ?E = "REG_MDM_STATUS_SYS_NRESET c OR REG_MDM_STATUS_FLASH_READY c"
  define A where "A = take 5 (setupOps c)"
  define B where "B = drop 6 (setupOps c)"
  have A: "A = [OpWrite REG_MDM_CONTROL (REG_MDM_CONTROL_CORE_HOLD_RESET c),
      OpPoll REG_MDM_STATUS (REG_MDM_STATUS_SYS_NRESET c) (- 1) resetRetries,
      OpWrite REG_MDM_CONTROL (REG_MDM_CONTROL_SYS_RESET_REQ c),
      OpPoll REG_MDM_STATUS (REG_MDM_STATUS_SYS_NRESET c) 0 (DEFAULT_RETRIES c),
      OpWrite REG_MDM_CONTROL 0]"
    by (simp add: A_def setupOps_def)
  have B: "B = [OpWrite MEM_CSW
        (CSW_DBGSWENABLE c OR CSW_MASTER_DEBUG c OR CSW_HPROT c OR CSW_32BIT c
           OR CSW_ADDRINC_OFF c),
      OpWrite MEM_TAR (REG_SCB_DHCSR c)]"
    by (simp add: B_def setupOps_def)
  have ops: "setupOps c = A @ OpPoll REG_MDM_STATUS ?M ?E resetRetries # B"
    by (simp add: A B setupOps_def)
  have regsA: "opReg ` set A = {REG_MDM_CONTROL, REG_MDM_STATUS}" by (auto simp: A)
  have regsB: "opReg ` set B = {MEM_CSW, MEM_TAR}" by (auto simp: B)
  obtain okA stA sA where a: "runOps T A None s = (okA, stA, sA)"
    by (cases "runOps T A None s")
  from runOps_run [OF a] obtain preA where
    preA: "trace sA = trace s @ preA" "\<forall>e\<in>set preA. evReg e \<in> Some ` opReg ` set A"
      "okA \<longrightarrow> filter isOpEvent preA = map (opDone True) A"
    by auto
  from preA(2) regsA have nomemA: "\<not> list_ex isMemPort preA"
    by (auto simp: list_ex_iff isMemPort_def)
  show ?thesis
  proof (cases okA)
    case False
    with a have "runOps T (setupOps c) None s = (False, stA, sA)"
      by (simp add: ops runOps_append)
    with run have "s' = sA" by (simp add: resetHalt_refines)
    with tr preA(1) have "evs = preA" by simp
    with mem nomemA show ?thesis by simp
  next
    case okA: True
    obtain okP stP sP where
      p: "apReadPoll T REG_MDM_STATUS stA ?M ?E resetRetries sA = (okP, stP, sP)"
      by (cases "apReadPoll T REG_MDM_STATUS stA ?M ?E resetRetries sA")
    from apReadPoll_run(2) [OF p] obtain rds where
      rds: "trace sP = trace sA @ rds @ [EvApReadPoll REG_MDM_STATUS ?M ?E resetRetries okP]"
        "pollReads REG_MDM_STATUS ?M ?E okP rds"
      by auto
    from rds(2) have nomemR: "\<not> list_ex isMemPort rds"
      by (auto simp: list_ex_iff isMemPort_def dest: pollReads_evReg)
    show ?thesis
    proof (cases okP)
      case False
      with a okA p have "runOps T (setupOps c) None s = (False, stP, sP)"
        by (simp add: ops runOps_append)
      with run have "s' = sP" by (simp add: resetHalt_refines)
      with tr preA(1) rds(1)
      have "evs = preA @ rds @ [EvApReadPoll REG_MDM_STATUS ?M ?E resetRetries okP]" by simp
      with mem nomemA nomemR show ?thesis by (simp add: isMemPort_def)
    next
      case okP: True
      from rds(2) okP obtain rds' v where
        v: "rds = rds' @ [EvApRead REG_MDM_STATUS (Some v)]" "v AND ?M = ?E AND ?M"
          "\<forall>e\<in>set rds'. \<exists>x. e = EvApRead REG_MDM_STATUS x"
        by (auto elim: pollReads_True_last)
      note safe = safe_bits [OF v(2) disj]
      obtain okB stB sB where b: "runOps T B stP sP = (okB, stB, sB)"
        by (cases "runOps T B stP sP")
      from runOps_run [OF b] obtain postB where
        postB: "trace sB = trace sP @ postB" "\<forall>e\<in>set postB. evReg e \<in> Some ` opReg ` set B"
        by auto
      from postB(2) regsB have nostB: "\<not> list_ex (isReadOf REG_MDM_STATUS) postB"
        by (auto simp: list_ex_iff elim!: isReadOf.elims)
      from a okA p okP b have all: "runOps T (setupOps c) None s = (okB, stB, sB)"
        by (simp add: ops runOps_append)
      have "\<exists>post. trace s' = trace sB @ post \<and> \<not> list_ex (isReadOf REG_MDM_STATUS) post"
      proof (cases okB)
        case False
        with run all have "s' = sB" by (simp add: resetHalt_refines)
        then show ?thesis by simp
      next
        case True
        with run all have "haltPhase T sB = (r, s')" by (simp add: resetHalt_refines)
        from haltPhase_run(2) [OF this] obtain race where
          "trace s' = trace sB @ EvSetLogLevel LOG_NONE # race @
              [EvInitMemPort, EvSetLogLevel (logLevel sB),
               if r then EvLog LOG_NORMAL ''CPU reset & halt successful. Now in debug mode.'' []
               else EvLog LOG_ERROR
                      ''ARMKinetisDebug: Failed to put CPU in debug halt state. (DHCSR: %08x)''
                      [lastDhcsr None race]]"
          "list_all isDRW race"
          by auto
        then show ?thesis
          by (auto simp: list_ex_iff list_all_iff isDRW_def elim!: isReadOf.elims)
      qed
      then obtain post where
        post: "trace s' = trace sB @ post" "\<not> list_ex (isReadOf REG_MDM_STATUS) post"
        by blast
      let ?pre = "preA @ rds'"
      let ?post = "postB @ post"
      have e: "evs = ?pre @ [EvApRead REG_MDM_STATUS (Some v),
                  EvApReadPoll REG_MDM_STATUS ?M ?E 2000 True] @ ?post"
        using tr preA(1) rds(1) v(1) postB(1) post(1) okP by (simp add: resetRetries_def)
      have 1: "\<not> list_ex isMemPort ?pre"
        using nomemA v(3) by (auto simp: list_ex_iff isMemPort_def)
      have 2: "filter isOpEvent ?pre = map (opDone True) (take 5 (setupOps c))"
        using preA(3) okA v(3) by (auto simp: A_def filter_empty_conv)
      have 3: "\<not> list_ex (isReadOf REG_MDM_STATUS) ?post"
        using nostB post(2) by simp
      from e 1 2 3 safe show ?thesis by blast
    qed
  qed
qed

theorem resetHalt_safe_state_witness:
  "resetHalt replay sampleReg (haltAt 2)
     = (True, \<lparr>dev = ([], []), logLevel = LOG_NORMAL, trace = raceTrace 2\<rparr>)
   \<and> REG_MDM_STATUS_SYS_SECURITY sampleReg
        AND (REG_MDM_STATUS_SYS_NRESET sampleReg OR REG_MDM_STATUS_FLASH_READY sampleReg) = 0
   \<and> list_ex isMemPort (raceTrace 2)
   \<and> raceTrace 2 =
       take 7 setupTrace
       @ [EvApRead REG_MDM_STATUS (Some 0x0A), EvApReadPoll REG_MDM_STATUS 0x0E 0x0A 2000 True]
       @ drop 9 (raceTrace 2)
   \<and> \<not> list_ex isMemPort (take 7 setupTrace)
   \<and> (0x0A :: word32) AND 0x08 = 0x08 \<and> (0x0A :: word32) AND 0x02 = 0x02
   \<and> (0x0A :: word32) AND 0x04 = 0"
  using resetHalt_safe_state
    [of replay sampleReg "haltAt 2" True
        "\<lparr>dev = ([], []), logLevel = LOG_NORMAL, trace = raceTrace 2\<rparr>" "raceTrace 2"]
    resetHalt_haltAt [of 2]
  by (simp add: raceTrace_simps isMemPort_def)

subsection \<open>Failed accesses\<close>

lemma stopsAtFailure_append:
  "stopsAtFailure (xs @ ys) \<longleftrightarrow>
     stopsAtFailure xs \<and> stopsAtFailure ys
     \<and> (list_ex failedOutsideRace xs \<longrightarrow> \<not> list_ex isAccess ys)"
  by (induction xs) auto

lemma stopsAtFailure_clean: "\<not> list_ex failedOutsideRace xs \<Longrightarrow> stopsAtFailure xs"
  by (induction xs) auto

lemma pollReads_clean:
  "pollReads reg msk expected True rds \<Longrightarrow> \<not> list_ex isFailedAccess rds"
proof -
  assume p: "pollReads reg msk expected True rds"
  then have "rds = butlast rds @ [last rds]" by (simp add: pollReads_def)
  moreover from p have "\<forall>e\<in>set (butlast rds). \<not> isFailedAccess e"
    by (auto simp: pollReads_def)
  moreover from p have "\<not> isFailedAccess (last rds)" by (auto simp: pollReads_def)
  ultimately show ?thesis
    by (metis Un_iff list_ex_iff set_append list.set(1) list.set(2) insert_iff empty_iff)
qed

lemma pollReads_stops: "pollReads reg msk expected ok rds \<Longrightarrow> stopsAtFailure rds"
proof -
  assume p: "pollReads reg msk expected ok rds"
  then have sp: "rds = butlast rds @ [last rds]" by (simp add: pollReads_def)
  from p have "\<not> list_ex failedOutsideRace (butlast rds)"
    by (auto simp: pollReads_def list_ex_iff failedOutsideRace_def)
  then have "stopsAtFailure (butlast rds @ [last rds])"
    by (simp add: stopsAtFailure_append stopsAtFailure_clean)
  with sp show ?thesis by simp
qed

lemma failedOutsideRace_simps [simp]:
  "failedOutsideRace (EvApRead reg r) \<longleftrightarrow> r = None \<and> reg \<noteq> MEM_DRW"
  "failedOutsideRace (EvApWrite reg v ok) \<longleftrightarrow> \<not> ok \<and> reg \<noteq> MEM_DRW"
  "\<not> failedOutsideRace (EvApReadPoll reg msk expected retries ok)"
  "\<not> failedOutsideRace EvInitMemPort"
  "\<not> failedOutsideRace (EvSetLogLevel lvl)"
  "\<not> failedOutsideRace (EvLog lvl msg args)"
  by (cases r; cases ok; simp add: failedOutsideRace_def isDRW_def)+

lemma pollReads_clean':
  "pollReads reg msk expected True rds \<Longrightarrow> \<not> list_ex failedOutsideRace rds"
  using pollReads_clean by (fastforce simp: list_ex_iff failedOutsideRace_def)

lemma runOps_stops:
  "runOps T ops status s = (ok, status', s') \<Longrightarrow> trace s' = trace s @ evs \<Longrightarrow>
     stopsAtFailure evs \<and> (ok \<longrightarrow> \<not> list_ex failedOutsideRace evs)"
proof (induction ops arbitrary: status s evs)
  case Nil
  then show ?case by simp
next
  case (Cons op ops)
  show ?case
  proof (cases op)
    case (OpWrite reg v)
    obtain ok1 s1 where w: "apWrite T reg v s = (ok1, s1)" by (cases "apWrite T reg v s")
    note tw = apWrite_run(1) [OF w]
    show ?thesis
    proof (cases ok1)
      case False
      with Cons.prems w tw OpWrite show ?thesis by auto
    next
      case True
      with Cons.prems(1) w OpWrite have run: "runOps T ops status s1 = (ok, status', s')" by simp
      from runOps_run [OF run] obtain evs1 where e1: "trace s' = trace s1 @ evs1" by blast
      from Cons.IH [OF run e1] e1 tw Cons.prems(2) True show ?thesis by auto
    qed
  next
    case (OpPoll reg msk expected retries)
    obtain ok1 st1 s1 where p: "apReadPoll T reg status msk expected retries s = (ok1, st1, s1)"
      by (cases "apReadPoll T reg status msk expected retries s")
    from apReadPoll_run(2) [OF p] obtain rds where
      rds: "trace s1 = trace s @ rds @ [EvApReadPoll reg msk expected retries ok1]"
        "pollReads reg msk expected ok1 rds" by auto
    show ?thesis
    proof (cases ok1)
      case False
      with Cons.prems p OpPoll rds(1) have "ok = False"
        "evs = rds @ [EvApReadPoll reg msk expected retries False]" by auto
      with pollReads_stops [OF rds(2)] show ?thesis
        by (simp add: stopsAtFailure_append)
    next
      case True
      with Cons.prems(1) p OpPoll have run: "runOps T ops st1 s1 = (ok, status', s')" by simp
      from runOps_run [OF run] obtain evs1 where e1: "trace s' = trace s1 @ evs1" by blast
      from e1 rds(1) Cons.prems(2) True
      have evs: "evs = rds @ EvApReadPoll reg msk expected retries True # evs1" by simp
      from rds(2) True have c: "\<not> list_ex failedOutsideRace rds" by (simp add: pollReads_clean')
      from Cons.IH [OF run e1] c show ?thesis
        unfolding evs by (simp add: stopsAtFailure_append stopsAtFailure_clean)
    qed
  qed
qed

lemma haltLoop_replay_wfail:
  "haltLoop replay (Suc n) d \<lparr>dev = (rs, False # ws), logLevel = l, trace = tr\<rparr>
   = haltLoop replay n d
       \<lparr>dev = (rs, ws), logLevel = l, trace = tr @ [EvApWrite MEM_DRW 0xA05F0003 False]\<rparr>"
  by (simp add: replay_simps)

lemma haltLoop_replay_rfail:
  "haltLoop replay (Suc n) d \<lparr>dev = (None # rs, True # ws), logLevel = l, trace = tr\<rparr>
   = haltLoop replay n d
       \<lparr>dev = (rs, ws), logLevel = l,
        trace = tr @ [EvApWrite MEM_DRW 0xA05F0003 True, EvApRead MEM_DRW None]\<rparr>"
  by (simp add: replay_simps)

lemma race_clean:
  "list_all isDRW race \<Longrightarrow> \<not> list_ex failedOutsideRace race"
  by (auto simp: list_all_iff list_ex_iff failedOutsideRace_def)

lemma detect_stops:
  assumes "detect T s = (r, s')" and "trace s' = trace s @ evs"
  shows "stopsAtFailure evs \<and> (list_ex failedOutsideRace evs \<longrightarrow> \<not> r)"
  using assms
  by (auto simp: detect_def split: prod.splits option.splits if_splits dest!: apRead_run(1))

lemma resetHalt_stops:
  assumes "resetHalt T c s = (r, s')" and "trace s' = trace s @ evs"
  shows "stopsAtFailure evs \<and> (list_ex failedOutsideRace evs \<longrightarrow> \<not> r)"
proof -
  obtain ok st s1 where ops: "runOps T (setupOps c) None s = (ok, st, s1)"
    by (cases "runOps T (setupOps c) None s")
  from runOps_run [OF ops] obtain pre where pre: "trace s1 = trace s @ pre" by blast
  note st = runOps_stops [OF ops pre]
  show ?thesis
  proof (cases ok)
    case False
    with assms(1) ops have "\<not> r" "s' = s1" by (auto simp: resetHalt_refines)
    with pre assms(2) st show ?thesis by simp
  next
    case True
    with assms(1) ops have h: "haltPhase T s1 = (r, s')" by (simp add: resetHalt_refines)
    from haltPhase_run(2) [OF h] obtain race fin where
      race: "trace s' = trace s1 @ EvSetLogLevel LOG_NONE # race @
              [EvInitMemPort, EvSetLogLevel (logLevel s1), fin]"
        "list_all isDRW race" "\<exists>lvl msg args. fin = EvLog lvl msg args"
      by (cases r) auto
    from race(1) pre assms(2) have evs: "evs = pre @ EvSetLogLevel LOG_NONE # race @
              [EvInitMemPort, EvSetLogLevel (logLevel s1), fin]" by simp
    from st True race_clean [OF race(2)] race(3) show ?thesis
      unfolding evs
      by (auto simp: stopsAtFailure_append stopsAtFailure_clean)
  qed
qed

lemma flashMassErase_stops:
  assumes "flashMassErase T c s = (r, s')" and "trace s' = trace s @ evs"
  shows "stopsAtFailure evs \<and> (list_ex failedOutsideRace evs \<longrightarrow> \<not> r)"
  using assms
  by (cases rule: flashMassErase_cases)
     (auto simp: stopsAtFailure_append pollReads_clean' pollReads_stops stopsAtFailure_clean)

text \<open>
  Claim C9, as stated, fails: in the halt race of \<^verbatim>\<open>resetHalt\<close> a failed write or
  read of \<^verbatim>\<open>MEM_DRW\<close> takes the \<^verbatim>\<open>continue\<close> branch, and the access is made again
  at the next attempt. In the run below the first attempt's write fails, the second
  attempt's read fails, the third sees the core halted, and \<^verbatim>\<open>resetHalt\<close> succeeds.
\<close>

theorem resetHalt_retries_failed_access:
  "resetHalt replay sampleReg retried
     = (True,
        \<lparr>dev = ([], []), logLevel = LOG_NORMAL,
         trace = setupTrace @
           [EvSetLogLevel LOG_NONE,
            EvApWrite MEM_DRW 0xA05F0003 False,
            EvApWrite MEM_DRW 0xA05F0003 True, EvApRead MEM_DRW None,
            EvApWrite MEM_DRW 0xA05F0003 True, EvApRead MEM_DRW (Some 0x00030003),
            EvInitMemPort, EvSetLogLevel LOG_NORMAL,
            EvLog LOG_NORMAL ''CPU reset & halt successful. Now in debug mode.'' []]\<rparr>)"
proof -
  have n: "(200::nat) = Suc (Suc (Suc 197))" by simp
  have loop: "haltLoop replay 200 None
      \<lparr>dev = ([None, Some 0x00030003], [False, True, True]), logLevel = LOG_NONE,
       trace = setupTrace @ [EvSetLogLevel LOG_NONE]\<rparr>
     = (197, Some 0x00030003,
        \<lparr>dev = ([], []), logLevel = LOG_NONE,
         trace = setupTrace @
           [EvSetLogLevel LOG_NONE,
            EvApWrite MEM_DRW 0xA05F0003 False,
            EvApWrite MEM_DRW 0xA05F0003 True, EvApRead MEM_DRW None,
            EvApWrite MEM_DRW 0xA05F0003 True, EvApRead MEM_DRW (Some 0x00030003)]\<rparr>)"
    unfolding n
    by (simp only: haltLoop_replay_wfail haltLoop_replay_rfail haltLoop_replay_hit) simp
  show ?thesis
    unfolding resetHalt_refines retried_def start_def
    by (simp add: runOps_replay_setup)
       (simp add: haltPhase_def setLogLevel_save_def setLogLevel_def initMemPort_def log_def
          emit_def replay_initMemPort loop Let_def)
qed

text \<open>
  Claim C9, amended: in \<^verbatim>\<open>detect\<close>, \<^verbatim>\<open>resetHalt\<close> and \<^verbatim>\<open>flashMassErase\<close>, an
  access port read or write of a register other than \<^verbatim>\<open>MEM_DRW\<close> that fails is
  followed by no further access of the target (only by the return of the poll it
  belongs to, and by a message), and the operation returns failure.
\<close>

theorem ap_failure_outside_race:
  "(detect T s = (r, s') \<and> trace s' = trace s @ evs \<longrightarrow>
      stopsAtFailure evs \<and> (list_ex failedOutsideRace evs \<longrightarrow> \<not> r))
   \<and> (resetHalt T c s = (r, s') \<and> trace s' = trace s @ evs \<longrightarrow>
      stopsAtFailure evs \<and> (list_ex failedOutsideRace evs \<longrightarrow> \<not> r))
   \<and> (flashMassErase T c s = (r, s') \<and> trace s' = trace s @ evs \<longrightarrow>
      stopsAtFailure evs \<and> (list_ex failedOutsideRace evs \<longrightarrow> \<not> r))"
  using detect_stops resetHalt_stops flashMassErase_stops by blast

theorem ap_failure_outside_race_witness:
  "resetHalt replay sampleReg (start ([Some 0x08, Some 0, Some 0x0C, None], [True, True, True]) LOG_NORMAL)
     = (False,
        \<lparr>dev = ([], []), logLevel = LOG_NORMAL,
         trace = [EvApWrite REG_MDM_CONTROL 0x10 True,
                  EvApRead REG_MDM_STATUS (Some 0x08),
                  EvApReadPoll REG_MDM_STATUS 0x08 (- 1) 2000 True,
                  EvApWrite REG_MDM_CONTROL 0x08 True,
                  EvApRead REG_MDM_STATUS (Some 0),
                  EvApReadPoll REG_MDM_STATUS 0x08 0 50 True,
                  EvApWrite REG_MDM_CONTROL 0 True,
                  EvApRead REG_MDM_STATUS (Some 0x0C),
                  EvApRead REG_MDM_STATUS None,
                  EvApReadPoll REG_MDM_STATUS 0x0E 0x0A 2000 False]\<rparr>)
   \<and> failedOutsideRace (EvApRead REG_MDM_STATUS None)
   \<and> stopsAtFailure
        [EvApWrite REG_MDM_CONTROL 0x10 True,
                  EvApRead REG_MDM_STATUS (Some 0x08),
                  EvApReadPoll REG_MDM_STATUS 0x08 (- 1) 2000 True,
                  EvApWrite REG_MDM_CONTROL 0x08 True,
                  EvApRead REG_MDM_STATUS (Some 0),
                  EvApReadPoll REG_MDM_STATUS 0x08 0 50 True,
                  EvApWrite REG_MDM_CONTROL 0 True,
                  EvApRead REG_MDM_STATUS (Some 0x0C),
                  EvApRead REG_MDM_STATUS None,
                  EvApReadPoll REG_MDM_STATUS 0x0E 0x0A 2000 False]"
  using ap_failure_outside_race
    [of replay "start ([Some 0x08, Some 0, Some 0x0C, None], [True, True, True]) LOG_NORMAL"
        False
        "\<lparr>dev = ([], []), logLevel = LOG_NORMAL,
         trace = [EvApWrite REG_MDM_CONTROL 0x10 True,
                  EvApRead REG_MDM_STATUS (Some 0x08),
                  EvApReadPoll REG_MDM_STATUS 0x08 (- 1) 2000 True,
                  EvApWrite REG_MDM_CONTROL 0x08 True,
                  EvApRead REG_MDM_STATUS (Some 0),
                  EvApReadPoll REG_MDM_STATUS 0x08 0 50 True,
                  EvApWrite REG_MDM_CONTROL 0 True,
                  EvApRead REG_MDM_STATUS (Some 0x0C),
                  EvApRead REG_MDM_STATUS None,
                  EvApReadPoll REG_MDM_STATUS 0x0E 0x0A 2000 False]\<rparr>"
        "[EvApWrite REG_MDM_CONTROL 0x10 True,
                  EvApRead REG_MDM_STATUS (Some 0x08),
                  EvApReadPoll REG_MDM_STATUS 0x08 (- 1) 2000 True,
                  EvApWrite REG_MDM_CONTROL 0x08 True,
                  EvApRead REG_MDM_STATUS (Some 0),
                  EvApReadPoll REG_MDM_STATUS 0x08 0 50 True,
                  EvApWrite REG_MDM_CONTROL 0 True,
                  EvApRead REG_MDM_STATUS (Some 0x0C),
                  EvApRead REG_MDM_STATUS None,
                  EvApReadPoll REG_MDM_STATUS 0x0E 0x0A 2000 False]"
        sampleReg]
  by (simp add: resetHalt_refines setupOps_def resetRetries_def replay_simps apReadPoll_loop_unfold)

end
